theory Spec2Isabelle
  imports Main
begin

section \<open>Embedding of \<open>scripts/add-metadata.py\<close>\<close>

text \<open>
  The script tags audio files by building one \<open>ffmpeg\<close> argument vector per file and
  running it as a child process, optionally followed by an \<open>rm\<close> and an \<open>mv\<close>.
  Exceptions are values of \<open>error\<close>; the effects of the script (lines read from standard
  input, glob queries, child processes started) are threaded through an explicit
  \<open>world\<close>, and the one mutation of a path object, the caching of its string, through
  the object. Standard output is not modelled. Assertions are taken to be enabled.
\<close>

datatype error =
    AssertionError
  | IndexError
  | ValueError
  | EOFError
  | AttributeError
  | NotImplementedError
  | OSError

subsection \<open>The library operations the script calls\<close>

text \<open>
  \<open>str.replace(old, new)\<close> for a one-character \<open>old\<close>: every occurrence of the
  character is replaced by \<open>new\<close>, left to right.
\<close>

fun replace :: "string \<Rightarrow> char \<Rightarrow> string \<Rightarrow> string" where
  "replace [] old new = []"
| "replace (c # cs) old new = (if c = old then new @ replace cs old new else c # replace cs old new)"

text \<open>
  \<open>s.rindex(c)\<close>: the highest index at which the character occurs; \<open>ValueError\<close> when it
  does not occur.
\<close>

fun rindex :: "string \<Rightarrow> char \<Rightarrow> error + nat" where
  "rindex [] c = Inl ValueError"
| "rindex (x # xs) c =
     (case rindex xs c of
        Inr i \<Rightarrow> Inr (Suc i)
      | Inl e \<Rightarrow> (if x = c then Inr 0 else Inl e))"

text \<open>\<open>s.split(c)\<close> and \<open>sep.join(parts)\<close>.\<close>

fun split :: "string \<Rightarrow> char \<Rightarrow> string list" where
  "split [] sep = [[]]"
| "split (c # cs) sep =
     (if c = sep then [] # split cs sep
      else (case split cs sep of
              [] \<Rightarrow> [[c]]
            | w # ws \<Rightarrow> (c # w) # ws))"

fun join :: "string \<Rightarrow> string list \<Rightarrow> string" where
  "join sep [] = []"
| "join sep [p] = p"
| "join sep (p # q # ps) = p @ sep @ join sep (q # ps)"

text \<open>
  A \<open>pathlib.Path\<close> object on a POSIX system: a root (\<open>''''\<close>, \<open>''/''\<close> or \<open>''//''\<close>), the
  components after it, and whether the object's private attribute \<open>_str\<close> is set.
  Parsing a string drops empty components and \<open>''.''\<close>; exactly two leading slashes are
  kept as the root \<open>''//''\<close>, any other number becomes \<open>''/''\<close>. A freshly built object has
  no \<open>_str\<close>.
\<close>

datatype path = PurePath (root: string) (parts: "string list") (has_str: bool)

definition splitroot :: "string \<Rightarrow> string \<times> string" where
  "splitroot part =
     (if part \<noteq> [] \<and> hd part = CHR ''/'' then
        (let stripped_part = dropWhile (\<lambda>c. c = CHR ''/'') part
         in if length part - length stripped_part = 2 then (''//'', stripped_part)
            else (''/'', stripped_part))
      else ('''', part))"

definition Path :: "string \<Rightarrow> path" where
  "Path s = (case splitroot s of
               (r, rel) \<Rightarrow>
                 PurePath r (filter (\<lambda>x. x \<noteq> [] \<and> x \<noteq> ''.'') (split rel CHR ''/'')) False)"

text \<open>
  The operator \<open>path / key\<close>: a rooted \<open>key\<close> replaces the path, any other is appended.
  The result is a new object.
\<close>

definition joinpath :: "path \<Rightarrow> string \<Rightarrow> path" where
  "joinpath p key =
     (let q = Path key
      in if root q \<noteq> [] then q else PurePath (root p) (parts p @ parts q) False)"

text \<open>
  The string that \<open>str(p)\<close> returns. Calling \<open>str(p)\<close> also stores that string in
  \<open>p._str\<close>, unless it is there already: \<open>stringified p\<close> is the object afterwards.
  \<open>p.as_posix()\<close> calls \<open>str(p)\<close>; on a POSIX system it returns the same string.
\<close>

definition str :: "path \<Rightarrow> string" where
  "str p = (if root p = [] \<and> parts p = [] then ''.'' else root p @ join ''/'' (parts p))"

definition stringified :: "path \<Rightarrow> path" where
  "stringified p = PurePath (root p) (parts p) True"

definition as_posix :: "path \<Rightarrow> string \<times> path" where
  "as_posix p = (str p, stringified p)"

text \<open>
  Reading the attribute \<open>p._str\<close> itself, as the script does: \<open>AttributeError\<close> when
  nothing has set it yet.
\<close>

definition cached_str :: "path \<Rightarrow> error + string" where
  "cached_str p = (if has_str p then Inr (str p) else Inl AttributeError)"

text \<open>\<open>p.name\<close>, the last component.\<close>

definition name :: "path \<Rightarrow> string" where
  "name p = (if parts p = [] then [] else last (parts p))"

subsection \<open>The world the script acts on\<close>

text \<open>
  \<open>stdin\<close> holds the lines \<open>input()\<close> has still to read. \<open>events\<close> records, oldest first,
  each glob query and each argument vector handed to \<open>subprocess.run\<close>. The exit status
  of a child process is never read by the script, so it is not recorded; starting the
  process is taken to succeed. The list \<open>outputFiles\<close> of \<open>addMetadata\<close> is written and
  never read, so it is left out.
\<close>

datatype event =
    Globbed path string
  | Ran "string list"

record world =
  stdin :: "string list"
  events :: "event list"

text \<open>
  What \<open>list(path.glob(pattern))\<close> gives in the file system the script starts in: the
  matches, or the exception the library raises for the pattern. Whether a match carries
  \<open>_str\<close> is the library's choice (CPython 3.12 sets it on glob results, CPython 3.11
  does not), so it is part of what the file system returns.
\<close>

type_synonym filesystem = "path \<Rightarrow> string \<Rightarrow> error + path list"

definition glob :: "filesystem \<Rightarrow> path \<Rightarrow> string \<Rightarrow> world \<Rightarrow> (error + path list) \<times> world" where
  "glob fs p pattern w = (fs p pattern, w\<lparr>events := events w @ [Globbed p pattern]\<rparr>)"

definition input :: "string \<Rightarrow> world \<Rightarrow> (error + string) \<times> world" where
  "input prompt w =
     (case stdin w of
        [] \<Rightarrow> (Inl EOFError, w)
      | l # ls \<Rightarrow> (Inr l, w\<lparr>stdin := ls\<rparr>))"

definition subprocess_run :: "string list \<Rightarrow> world \<Rightarrow> world" where
  "subprocess_run command w = w\<lparr>events := events w @ [Ran command]\<rparr>"

subsection \<open>Configuration\<close>

record MediaConfig =
  dir :: string
  img :: string
  artist :: string
  genre :: string
  track :: string
  album :: string
  title :: string
  filename :: string
  askTitle :: bool
  replaceWhitespace :: bool
  cleanupFiles :: bool

subsection \<open>File discovery\<close>

text \<open>
  Line 51 of \<open>getFilePaths\<close>: \<open>list(path.glob(img))[0] if img else None\<close>. Indexing the
  empty list raises \<open>IndexError\<close>.
\<close>

definition imageFile_of :: "filesystem \<Rightarrow> path \<Rightarrow> string \<Rightarrow> world \<Rightarrow> (error + path option) \<times> world" where
  "imageFile_of fs p pattern w =
     (if pattern \<noteq> [] then
        (case glob fs p pattern w of
           (Inl e, w') \<Rightarrow> (Inl e, w')
         | (Inr [], w') \<Rightarrow> (Inl IndexError, w')
         | (Inr (x # xs), w') \<Rightarrow> (Inr (Some x), w'))
      else (Inr None, w))"

definition getFilePaths ::
  "filesystem \<Rightarrow> string \<Rightarrow> string \<Rightarrow> string \<Rightarrow> world \<Rightarrow> (error + path list \<times> path option) \<times> world" where
  "getFilePaths fs d fname pattern w =
     (let p = Path d
      in case (if CHR ''*'' \<in> set fname then glob fs p fname w
               else (Inr [joinpath p fname], w)) of
           (Inl e, w1) \<Rightarrow> (Inl e, w1)
         | (Inr files, w1) \<Rightarrow>
             if \<not> (files \<noteq> [] \<or> length files > 0) then (Inl AssertionError, w1)
             else (case imageFile_of fs p pattern w1 of
                     (Inl e, w2) \<Rightarrow> (Inl e, w2)
                   | (Inr imageFile, w2) \<Rightarrow> (Inr (files, imageFile), w2)))"

subsection \<open>Command synthesis\<close>

definition getRmCommand :: "path \<Rightarrow> error + string list" where
  "getRmCommand file =
     (case cached_str file of
        Inl e \<Rightarrow> Inl e
      | Inr file_str \<Rightarrow> Inr [''rm'', file_str])"

definition getMvCommand :: "string \<Rightarrow> string \<Rightarrow> string list" where
  "getMvCommand originalFilename newFilename = [''mv'', originalFilename, newFilename]"

text \<open>
  The loop over \<open>metadataMap.items()\<close>: a dictionary iterates in insertion order, so the
  map is an association list; each non-empty value extends the command.
\<close>

fun extend_metadata :: "(string \<times> string) list \<Rightarrow> string list \<Rightarrow> string list" where
  "extend_metadata [] command = command"
| "extend_metadata ((key, val) # items) command =
     extend_metadata items
       (if val \<noteq> [] then command @ [''-metadata'', key @ ''='' @ val] else command)"

text \<open>
  Lines 92 to 109 of \<open>getFfmpegCommand\<close>, once the title is known. Line 92 reads
  \<open>file._str\<close> and line 94 reads \<open>imageFile._str\<close>; either raises when the attribute is
  not set. A \<open>Path\<close> object is always true, so \<open>if imageFile\<close> asks whether there is one.
\<close>

definition ffmpeg_command ::
  "path \<Rightarrow> MediaConfig \<Rightarrow> path option \<Rightarrow> string \<Rightarrow> string \<Rightarrow> error + string list" where
  "ffmpeg_command file config imageFile outputFilename ttl =
     (case cached_str file of
        Inl e \<Rightarrow> Inl e
      | Inr file_str \<Rightarrow>
          (case (case imageFile of
                   Some cover \<Rightarrow>
                     (case cached_str cover of
                        Inl e \<Rightarrow> Inl e
                      | Inr cover_str \<Rightarrow>
                          Inr ([''ffmpeg'', ''-i'', file_str]
                               @ [''-i'', cover_str, ''-map'', ''0:0'', ''-map'', ''1:0'']))
                 | None \<Rightarrow> Inr [''ffmpeg'', ''-i'', file_str]) of
             Inl e \<Rightarrow> Inl e
           | Inr command \<Rightarrow>
               (let metadataMap = [(''title'', ttl),
                                   (''artist'', artist config),
                                   (''genre'', genre config),
                                   (''track'', track config),
                                   (''album'', album config)];
                    command = extend_metadata metadataMap command;
                    command = command @ [''-id3v2_version'', ''3''];
                    command = command @ [''-c'', ''copy'', outputFilename]
                in Inr command)))"

definition getFfmpegCommand ::
  "path \<Rightarrow> MediaConfig \<Rightarrow> path option \<Rightarrow> string \<Rightarrow> world \<Rightarrow> (error + string list) \<times> world" where
  "getFfmpegCommand file config imageFile outputFilename w =
     (case (if askTitle config then input ''Please provide a title for the song: '' w
            else (Inr (title config), w)) of
        (Inl e, w') \<Rightarrow> (Inl e, w')
      | (Inr ttl, w') \<Rightarrow> (ffmpeg_command file config imageFile outputFilename ttl, w'))"

subsection \<open>Output file names and cleanup\<close>

definition trimStr :: "string \<Rightarrow> string" where
  "trimStr fname = replace (replace fname CHR '' '' ''_'') CHR 0x27 ''''"

text \<open>
  The derived name, and the file object after the call: in normalize mode
  \<open>file.as_posix()\<close> has set its \<open>_str\<close>.
\<close>

definition getOutputFilename :: "MediaConfig \<Rightarrow> path \<Rightarrow> (error + string) \<times> path" where
  "getOutputFilename config file =
     (if replaceWhitespace config then
        (case as_posix file of
           (p, file') \<Rightarrow>
             (case rindex p CHR ''/'' of
                Inl e \<Rightarrow> (Inl e, file')
              | Inr i \<Rightarrow> (Inr (trimStr (take i p @ ''/copy_'' @ name file')), file')))
      else (Inr (''copy_'' @ name file), file))"

text \<open>
  \<open>cleanupFiles\<close>: the \<open>rm\<close> command is built (reading \<open>file._str\<close>) and run, then the
  \<open>mv\<close> command is built (reading \<open>file._str\<close> again) and run.
\<close>

definition cleanupFiles_fun :: "path \<Rightarrow> string \<Rightarrow> bool \<Rightarrow> world \<Rightarrow> (error + unit) \<times> world" where
  "cleanupFiles_fun file copyFilename trimFilename w =
     (case getRmCommand file of
        Inl e \<Rightarrow> (Inl e, w)
      | Inr command \<Rightarrow>
          (let w = subprocess_run command w
           in case cached_str file of
                Inl e \<Rightarrow> (Inl e, w)
              | Inr file_str \<Rightarrow>
                  (let command = getMvCommand copyFilename
                                   (if \<not> trimFilename then file_str else trimStr file_str);
                       w = subprocess_run command w
                   in (Inr (), w))))"

subsection \<open>The per-file loop and the entry point\<close>

fun addMetadata :: "MediaConfig \<Rightarrow> path list \<Rightarrow> path option \<Rightarrow> world \<Rightarrow> (error + unit) \<times> world" where
  "addMetadata config [] imageFile w = (Inr (), w)"
| "addMetadata config (file # files) imageFile w =
     (case getOutputFilename config file of
        (Inl e, file') \<Rightarrow> (Inl e, w)
      | (Inr outputFilename, file') \<Rightarrow>
          (case getFfmpegCommand file' config imageFile outputFilename w of
             (Inl e, w1) \<Rightarrow> (Inl e, w1)
           | (Inr command, w1) \<Rightarrow>
               (let w2 = subprocess_run command w1
                in if \<not> cleanupFiles config then addMetadata config files imageFile w2
                   else (case cleanupFiles_fun file' outputFilename (replaceWhitespace config) w2 of
                           (Inl e, w3) \<Rightarrow> (Inl e, w3)
                         | (Inr u, w3) \<Rightarrow> addMetadata config files imageFile w3))))"

definition main :: "filesystem \<Rightarrow> MediaConfig \<Rightarrow> world \<Rightarrow> (error + unit) \<times> world" where
  "main fs config w =
     (case getFilePaths fs (dir config) (filename config) (img config) w of
        (Inl e, w1) \<Rightarrow> (Inl e, w1)
      | (Inr (files, imageFile), w1) \<Rightarrow> addMetadata config files imageFile w1)"

text \<open>The block under \<open>if __name__ == "__main__"\<close>, from the parsed configuration on.\<close>

definition script :: "filesystem \<Rightarrow> MediaConfig \<Rightarrow> world \<Rightarrow> (error + unit) \<times> world" where
  "script fs config w =
     (if \<not> (dir config \<noteq> []) then (Inl AssertionError, w)
      else if \<not> (img config \<noteq> [] \<or> artist config \<noteq> [] \<or> genre config \<noteq> []
                  \<or> track config \<noteq> [] \<or> album config \<noteq> [] \<or> title config \<noteq> [])
        then (Inl AssertionError, w)
      else if \<not> (title config \<noteq> [] \<or> askTitle config) then (Inl AssertionError, w)
      else main fs config w)"

subsection \<open>Paths the library can produce\<close>

text \<open>
  Every path built by \<open>Path\<close> and \<open>/\<close> has one of the three roots and components that
  are non-empty, differ from \<open>''.''\<close> and hold no separator.
\<close>

definition wellformed :: "path \<Rightarrow> bool" where
  "wellformed p \<longleftrightarrow>
     root p \<in> {[], ''/'', ''//''}
     \<and> (\<forall>x \<in> set (parts p). x \<noteq> [] \<and> x \<noteq> ''.'' \<and> CHR ''/'' \<notin> set x)"

text \<open>
  Plain components: a non-empty list of names, none empty, none \<open>''.''\<close>, none holding a
  separator. Joined with separators they spell a relative path.
\<close>

definition plain :: "string list \<Rightarrow> bool" where
  "plain xs \<longleftrightarrow> xs \<noteq> [] \<and> list_all (\<lambda>x. x \<noteq> [] \<and> x \<noteq> ''.'' \<and> CHR ''/'' \<notin> set x) xs"

subsection \<open>The specification's reading of normalisation\<close>

text \<open>
  The specification describes normalising a file name as removing whitespace and
  apostrophe characters from the path string. This is that reading, kept apart from
  \<open>trimStr\<close>, which is the code.
\<close>

definition spec_normalize :: "string \<Rightarrow> string" where
  "spec_normalize s =
     filter (\<lambda>c. c \<notin> set [CHR '' '', CHR 0x09, CHR 0x0A, CHR 0x0B, CHR 0x0C, CHR 0x0D]
                 \<and> c \<noteq> CHR 0x27) s"

subsection \<open>Sample inputs\<close>

text \<open>
  The end-to-end scenario of the specification: directory \<open>songs/\<close> holding \<open>a.mp3\<close> and
  \<open>b.mp3\<close> (and a cover image), title \<open>Demo\<close>, every flag unset. The directory comes
  twice: with glob results that carry no \<open>_str\<close>, and with glob results that carry it.
  Then a file system in which no pattern matches anything, and a world with nothing to
  read and nothing done yet.
\<close>

definition songs_dir :: filesystem where
  "songs_dir p pattern =
     (if pattern = ''*.mp3'' then Inr [joinpath p ''a.mp3'', joinpath p ''b.mp3'']
      else if pattern = ''cover.*'' then Inr [joinpath p ''cover.png'']
      else Inr [])"

definition songs_dir_cached :: filesystem where
  "songs_dir_cached p pattern =
     (if pattern = ''*.mp3''
        then Inr [stringified (joinpath p ''a.mp3''), stringified (joinpath p ''b.mp3'')]
      else if pattern = ''cover.*'' then Inr [stringified (joinpath p ''cover.png'')]
      else Inr [])"

definition no_matches :: filesystem where
  "no_matches p pattern = Inr []"

definition demo_config :: MediaConfig where
  "demo_config =
     \<lparr>dir = ''songs/'', img = [], artist = [], genre = [], track = [], album = [],
      title = ''Demo'', filename = ''*.mp3'', askTitle = False, replaceWhitespace = False,
      cleanupFiles = False\<rparr>"

definition quiet :: world where
  "quiet = \<lparr>stdin = [], events = []\<rparr>"

text \<open>
  Variants of the scenario: a literal file name that names no file, with normalize mode
  off and on, and normalize mode together with cleanup.
\<close>

definition literal_config :: MediaConfig where
  "literal_config = demo_config\<lparr>filename := ''missing.mp3''\<rparr>"

definition literal_tidy_config :: MediaConfig where
  "literal_tidy_config = demo_config\<lparr>filename := ''missing.mp3'', replaceWhitespace := True\<rparr>"

definition tidy_config :: MediaConfig where
  "tidy_config = demo_config\<lparr>replaceWhitespace := True, cleanupFiles := True\<rparr>"

section \<open>Facts about the library operations\<close>

lemmas path_eval = Path_def splitroot_def joinpath_def str_def name_def as_posix_def
  stringified_def cached_str_def Let_def

lemma stringified_simps:
  "str (stringified p) = str p" "name (stringified p) = name p" "has_str (stringified p)"
  "root (stringified p) = root p" "parts (stringified p) = parts p"
  by (simp_all add: stringified_def str_def name_def)

lemma stringified_id: "has_str p \<Longrightarrow> stringified p = p"
  by (cases p) (simp add: stringified_def)

lemma has_str_Path: "\<not> has_str (Path s)"
  by (simp add: Path_def split: prod.splits)

lemma has_str_joinpath: "\<not> has_str (joinpath p key)"
  by (simp add: joinpath_def Let_def has_str_Path)

lemma cached_str_simps:
  "has_str p \<Longrightarrow> cached_str p = Inr (str p)"
  "\<not> has_str p \<Longrightarrow> cached_str p = Inl AttributeError"
  by (simp_all add: cached_str_def)

lemma replace_single: "replace s old [n] = map (\<lambda>c. if c = old then n else c) s"
  by (induction s) auto

lemma replace_empty: "replace s old [] = filter (\<lambda>c. c \<noteq> old) s"
  by (induction s) auto

lemma trimStr_map_filter:
  "trimStr s = map (\<lambda>c. if c = CHR '' '' then CHR ''_'' else c) (filter (\<lambda>c. c \<noteq> CHR 0x27) s)"
  unfolding trimStr_def replace_single replace_empty
  by (induction s) auto

lemma trimStr_clean: "CHR '' '' \<notin> set (trimStr s) \<and> CHR 0x27 \<notin> set (trimStr s)"
  unfolding trimStr_map_filter by (induction s) auto

lemma trimStr_unchanged: "CHR '' '' \<notin> set s \<Longrightarrow> CHR 0x27 \<notin> set s \<Longrightarrow> trimStr s = s"
  unfolding trimStr_map_filter by (induction s) auto

lemma rindex_Inl: "rindex s c = Inl e \<Longrightarrow> c \<notin> set s \<and> e = ValueError"
  by (induction s arbitrary: e) (auto split: sum.splits if_splits)

lemma rindex_Inr: "rindex s c = Inr i \<Longrightarrow> i < length s \<and> s ! i = c \<and> c \<notin> set (drop (Suc i) s)"
proof (induction s arbitrary: i)
  case Nil
  then show ?case by simp
next
  case (Cons x xs)
  show ?case
  proof (cases "rindex xs c")
    case (Inl e)
    with Cons.prems have "x = c" "i = 0" by (auto split: if_splits)
    moreover from Inl have "c \<notin> set xs" by (simp add: rindex_Inl)
    ultimately show ?thesis by simp
  next
    case (Inr j)
    with Cons.prems have "i = Suc j" by simp
    with Cons.IH[OF Inr] show ?thesis by simp
  qed
qed

lemma rindex_mem: "c \<in> set s \<Longrightarrow> \<exists>i. rindex s c = Inr i"
  by (cases "rindex s c") (auto dest: rindex_Inl)

lemma rindex_not_mem: "c \<notin> set s \<Longrightarrow> rindex s c = Inl ValueError"
  by (cases "rindex s c") (auto dest: rindex_Inl rindex_Inr)

lemma last_sep_unique:
  "a @ c # b = a' @ c # b' \<Longrightarrow> c \<notin> set b \<Longrightarrow> c \<notin> set b' \<Longrightarrow> a = a' \<and> b = b'"
proof (induction a arbitrary: a')
  case Nil
  then show ?case by (cases a') auto
next
  case (Cons x xs)
  then show ?case by (cases a') auto
qed

lemma join_snoc: "xs \<noteq> [] \<Longrightarrow> join sep (xs @ [n]) = join sep xs @ sep @ n"
  by (induction sep xs rule: join.induct) auto

lemma join_append:
  "xs \<noteq> [] \<Longrightarrow> ys \<noteq> [] \<Longrightarrow> join sep (xs @ ys) = join sep xs @ sep @ join sep ys"
  by (induction sep xs rule: join.induct) (auto simp: neq_Nil_conv)

lemma split_no_sep: "x \<in> set (split s c) \<Longrightarrow> c \<notin> set x"
  by (induction s arbitrary: x) (auto split: if_splits list.splits)

text \<open>Splitting undoes joining, for components that hold no separator.\<close>

lemma split_plain: "c \<notin> set s \<Longrightarrow> split s c = [s]"
  by (induction s) auto

lemma split_append_sep: "c \<notin> set a \<Longrightarrow> split (a @ c # s) c = a # split s c"
  by (induction a) auto

lemma split_join:
  "xs \<noteq> [] \<Longrightarrow> \<forall>x \<in> set xs. c \<notin> set x \<Longrightarrow> split (join [c] xs) c = xs"
  by (induction "[c]" xs rule: join.induct) (auto simp: split_plain split_append_sep)

lemma split_join_then:
  "xs \<noteq> [] \<Longrightarrow> \<forall>x \<in> set xs. c \<notin> set x \<Longrightarrow> split (join [c] xs @ c # s) c = xs @ split s c"
  by (induction "[c]" xs rule: join.induct) (auto simp: split_append_sep)

text \<open>The library's constructors establish the invariant.\<close>

lemma wellformed_Path: "wellformed (Path s)"
  by (auto simp: wellformed_def Path_def splitroot_def Let_def dest: split_no_sep split: if_splits)

lemma wellformed_joinpath: "wellformed p \<Longrightarrow> wellformed (joinpath p key)"
  using wellformed_Path[of key] by (auto simp: wellformed_def joinpath_def Let_def)

lemma wellformed_stringified: "wellformed (stringified p) = wellformed p"
  by (simp add: wellformed_def stringified_simps)

text \<open>A path is rooted exactly when its string starts with a separator.\<close>

lemma root_Path: "root (Path s) = [] \<longleftrightarrow> \<not> (s \<noteq> [] \<and> hd s = CHR ''/'')"
  by (simp add: Path_def splitroot_def Let_def)

lemma joinpath_rooted: "key \<noteq> [] \<and> hd key = CHR ''/'' \<Longrightarrow> joinpath p key = Path key"
  by (simp add: joinpath_def Let_def root_Path)

lemma joinpath_relative:
  "\<not> (key \<noteq> [] \<and> hd key = CHR ''/'') \<Longrightarrow>
     joinpath p key = PurePath (root p) (parts p @ parts (Path key)) False"
  by (simp add: joinpath_def Let_def root_Path)

text \<open>
  Parsing a relative path written with plain components gives back these components,
  with or without a trailing separator; so joining two such paths gives the string
  \<open>directory/filename\<close>.
\<close>

lemma join_plain_hd:
  assumes "plain xs"
  shows "join ''/'' xs \<noteq> [] \<and> hd (join ''/'' xs) \<noteq> CHR ''/''"
proof (cases xs)
  case Nil
  with assms show ?thesis by (simp add: plain_def)
next
  case (Cons x rest)
  with assms have "x \<noteq> []" "CHR ''/'' \<notin> set x" by (simp_all add: plain_def)
  then have "hd x \<noteq> CHR ''/''" by (cases x) auto
  with \<open>x \<noteq> []\<close> Cons show ?thesis by (cases rest) auto
qed

lemma plain_no_sep: "plain xs \<Longrightarrow> \<forall>x \<in> set xs. CHR ''/'' \<notin> set x"
  by (auto simp: plain_def list_all_iff)

lemma plain_filter: "plain xs \<Longrightarrow> filter (\<lambda>x. x \<noteq> [] \<and> x \<noteq> ''.'') xs = xs"
  by (auto simp: plain_def list_all_iff filter_id_conv)

lemma Path_join_plain:
  assumes "plain xs"
  shows "Path (join ''/'' xs) = PurePath [] xs False"
    and "Path (join ''/'' xs @ ''/'') = PurePath [] xs False"
proof -
  from assms have ne: "xs \<noteq> []" by (simp add: plain_def)
  from join_plain_hd[OF assms]
  have r: "splitroot (join ''/'' xs) = ([], join ''/'' xs)"
    and r': "splitroot (join ''/'' xs @ ''/'') = ([], join ''/'' xs @ ''/'')"
    by (simp_all add: splitroot_def)
  have s: "split (join ''/'' xs) CHR ''/'' = xs"
    using split_join[OF ne plain_no_sep[OF assms]] by simp
  have s': "split (join ''/'' xs @ ''/'') CHR ''/'' = xs @ [[]]"
    using split_join_then[OF ne plain_no_sep[OF assms], of "[]"] by simp
  show "Path (join ''/'' xs) = PurePath [] xs False"
    by (simp add: Path_def r s plain_filter[OF assms])
  show "Path (join ''/'' xs @ ''/'') = PurePath [] xs False"
    by (simp add: Path_def r' s' plain_filter[OF assms])
qed

lemma str_joinpath_plain:
  assumes "plain ds" and "plain fs" and "d = join ''/'' ds \<or> d = join ''/'' ds @ ''/''"
  shows "str (joinpath (Path d) (join ''/'' fs)) = join ''/'' ds @ ''/'' @ join ''/'' fs"
proof -
  from assms(1,3) have d: "Path d = PurePath [] ds False"
    by (auto simp: Path_join_plain)
  from assms(1,2) have ne: "ds \<noteq> []" "fs \<noteq> []" by (simp_all add: plain_def)
  then show ?thesis
    by (simp add: joinpath_def Let_def d Path_join_plain(1)[OF assms(2)] str_def join_append)
qed

text \<open>
  The string of a well-formed path that holds a separator ends with the separator
  followed by the path's name, and that separator is the last one.
\<close>

lemma str_ends_with_name:
  assumes wf: "wellformed p" and slash: "CHR ''/'' \<in> set (str p)"
  shows "\<exists>a. str p = a @ CHR ''/'' # name p"
proof (cases "parts p" rule: rev_cases)
  case Nil
  with slash have "root p \<noteq> []" by (auto simp: str_def split: if_splits)
  with wf have "root p = ''/'' \<or> root p = ''//''" by (auto simp: wellformed_def)
  with Nil show ?thesis by (auto simp: str_def name_def)
next
  case (snoc xs n)
  from wf snoc have n: "CHR ''/'' \<notin> set n" by (auto simp: wellformed_def)
  show ?thesis
  proof (cases "xs = []")
    case True
    with snoc have s: "str p = root p @ n" by (auto simp: str_def)
    with slash n have "root p \<noteq> []" by auto
    with wf have "root p = ''/'' \<or> root p = ''//''" by (auto simp: wellformed_def)
    with s snoc show ?thesis by (auto simp: name_def)
  next
    case False
    with snoc have "str p = (root p @ join ''/'' xs) @ CHR ''/'' # n"
      by (simp add: str_def join_snoc)
    with snoc show ?thesis unfolding name_def by auto
  qed
qed

lemma name_no_slash: "wellformed p \<Longrightarrow> CHR ''/'' \<notin> set (name p)"
  by (cases "parts p" rule: rev_cases) (auto simp: wellformed_def name_def)

lemma str_split_at_rindex:
  assumes wf: "wellformed p" and r: "rindex (str p) CHR ''/'' = Inr i"
  shows "str p = take i (str p) @ ''/'' @ name p"
proof -
  define s where "s = str p"
  from rindex_Inr[OF r] have i: "i < length s" "s ! i = CHR ''/''"
    "CHR ''/'' \<notin> set (drop (Suc i) s)" by (auto simp: s_def)
  then have d: "take i s @ CHR ''/'' # drop (Suc i) s = s"
    by (metis id_take_nth_drop)
  from i have "CHR ''/'' \<in> set s" by (metis nth_mem)
  from str_ends_with_name[OF wf this[unfolded s_def]]
  obtain a where a: "s = a @ CHR ''/'' # name p" unfolding s_def ..
  from d a have "take i s @ CHR ''/'' # drop (Suc i) s = a @ CHR ''/'' # name p"
    by (rule trans)
  from last_sep_unique[OF this i(3) name_no_slash[OF wf]]
  have "take i s = a" ..
  with a have "s = take i s @ ''/'' @ name p" by simp
  then show ?thesis by (simp only: s_def)
qed

lemma name_subset_str: "set (name p) \<subseteq> set (str p)"
proof (cases "parts p" rule: rev_cases)
  case Nil
  then show ?thesis by (simp add: name_def)
next
  case (snoc xs n)
  then show ?thesis
    by (cases "xs = []") (auto simp: name_def str_def join_snoc)
qed

section \<open>Facts about output names, command synthesis and cleanup\<close>

lemma getOutputFilename_object:
  "snd (getOutputFilename config file) = (if replaceWhitespace config then stringified file else file)"
  by (simp add: getOutputFilename_def as_posix_def split: sum.splits)

lemma getOutputFilename_plain:
  "\<not> replaceWhitespace config \<Longrightarrow> getOutputFilename config file = (Inr (''copy_'' @ name file), file)"
  by (simp add: getOutputFilename_def)

lemma extend_metadata_append:
  "extend_metadata items command =
     command @ concat (map (\<lambda>(key, val). if val = [] then [] else [''-metadata'', key @ ''='' @ val]) items)"
  by (induction items arbitrary: command) auto

text \<open>
  The command in closed form: it exists exactly when the file, and the cover image if
  there is one, carry \<open>_str\<close>.
\<close>

lemma ffmpeg_command_closed:
  "ffmpeg_command file config imageFile outputFilename ttl =
     (if has_str file \<and> (case imageFile of None \<Rightarrow> True | Some cover \<Rightarrow> has_str cover) then
        Inr ([''ffmpeg'', ''-i'', str file]
             @ (case imageFile of
                  None \<Rightarrow> []
                | Some cover \<Rightarrow> [''-i'', str cover, ''-map'', ''0:0'', ''-map'', ''1:0''])
             @ concat (map (\<lambda>(key, val). if val = [] then [] else [''-metadata'', key @ ''='' @ val])
                 [(''title'', ttl), (''artist'', artist config), (''genre'', genre config),
                  (''track'', track config), (''album'', album config)])
             @ [''-id3v2_version'', ''3'', ''-c'', ''copy'', outputFilename])
      else Inl AttributeError)"
  unfolding ffmpeg_command_def Let_def extend_metadata_append cached_str_def
  by (cases imageFile) simp_all

lemma ffmpeg_command_Inr_has_str:
  "ffmpeg_command file config imageFile outputFilename ttl = Inr command \<Longrightarrow> has_str file"
  by (simp add: ffmpeg_command_closed split: if_splits)

text \<open>
  The title is the configured one, or the next line of standard input when the prompt
  flag is set; with no line left the prompt raises \<open>EOFError\<close>.
\<close>

lemma getFfmpegCommand_resolved:
  assumes "askTitle config \<longrightarrow> stdin w \<noteq> []"
  shows "getFfmpegCommand file config imageFile outputFilename w =
           (ffmpeg_command file config imageFile outputFilename
              (if askTitle config then hd (stdin w) else title config),
            if askTitle config then w\<lparr>stdin := tl (stdin w)\<rparr> else w)"
  using assms unfolding getFfmpegCommand_def input_def
  by (cases "stdin w") auto

lemma getFfmpegCommand_EOF:
  "askTitle config \<Longrightarrow> stdin w = [] \<Longrightarrow>
     getFfmpegCommand file config imageFile outputFilename w = (Inl EOFError, w)"
  by (simp add: getFfmpegCommand_def input_def)

lemma cleanupFiles_fun_cached:
  "has_str file \<Longrightarrow>
     cleanupFiles_fun file copyFilename trimFilename w =
       (Inr (),
        w\<lparr>events := events w
             @ [Ran [''rm'', str file],
                Ran [''mv'', copyFilename, if trimFilename then trimStr (str file) else str file]]\<rparr>)"
  by (simp add: cleanupFiles_fun_def getRmCommand_def getMvCommand_def cached_str_def
        subprocess_run_def Let_def)

text \<open>One turn of the loop of \<open>addMetadata\<close>, when the turn completes.\<close>

lemma addMetadata_step:
  assumes "getOutputFilename config file = (Inr out, file')"
      and "askTitle config \<longrightarrow> stdin w \<noteq> []"
      and "ffmpeg_command file' config imageFile out
             (if askTitle config then hd (stdin w) else title config) = Inr command"
  shows "addMetadata config (file # files) imageFile w =
           addMetadata config files imageFile
             (w\<lparr>stdin := (if askTitle config then tl (stdin w) else stdin w),
                events := events w
                  @ Ran command
                  # (if cleanupFiles config
                     then [Ran [''rm'', str file'],
                           Ran [''mv'', out,
                                if replaceWhitespace config then trimStr (str file') else str file']]
                     else [])\<rparr>)"
  using assms(1,3) getFfmpegCommand_resolved[OF assms(2), of file' imageFile out]
    cleanupFiles_fun_cached[OF ffmpeg_command_Inr_has_str[OF assms(3)]]
  by (simp add: Let_def subprocess_run_def)

section \<open>Startup validation\<close>

text \<open>
  C7. A configuration whose directory is empty, or whose image, artist, genre, track,
  album and title are all empty, or whose title is empty while the prompt flag is unset,
  makes the script abort with an assertion failure, and the world is as it was: nothing
  was globbed, no process was run, no line was read.
\<close>

theorem script_aborts_at_startup:
  assumes "dir config = []
         \<or> (img config = [] \<and> artist config = [] \<and> genre config = [] \<and> track config = []
              \<and> album config = [] \<and> title config = [])
         \<or> (title config = [] \<and> \<not> askTitle config)"
  shows "script fs config w = (Inl AssertionError, w)"
  using assms unfolding script_def by auto

text \<open>The scenario's configuration with its title removed aborts, whatever the directory holds.\<close>

theorem script_aborts_at_startup_witness:
  "(dir (demo_config\<lparr>title := []\<rparr>) = []
      \<or> (img (demo_config\<lparr>title := []\<rparr>) = [] \<and> artist (demo_config\<lparr>title := []\<rparr>) = []
           \<and> genre (demo_config\<lparr>title := []\<rparr>) = [] \<and> track (demo_config\<lparr>title := []\<rparr>) = []
           \<and> album (demo_config\<lparr>title := []\<rparr>) = [] \<and> title (demo_config\<lparr>title := []\<rparr>) = [])
      \<or> (title (demo_config\<lparr>title := []\<rparr>) = [] \<and> \<not> askTitle (demo_config\<lparr>title := []\<rparr>)))
   \<and> script songs_dir (demo_config\<lparr>title := []\<rparr>) quiet = (Inl AssertionError, quiet)"
proof (intro conjI)
  show h: "dir (demo_config\<lparr>title := []\<rparr>) = []
      \<or> (img (demo_config\<lparr>title := []\<rparr>) = [] \<and> artist (demo_config\<lparr>title := []\<rparr>) = []
           \<and> genre (demo_config\<lparr>title := []\<rparr>) = [] \<and> track (demo_config\<lparr>title := []\<rparr>) = []
           \<and> album (demo_config\<lparr>title := []\<rparr>) = [] \<and> title (demo_config\<lparr>title := []\<rparr>) = [])
      \<or> (title (demo_config\<lparr>title := []\<rparr>) = [] \<and> \<not> askTitle (demo_config\<lparr>title := []\<rparr>))"
    by (simp add: demo_config_def)
  show "script songs_dir (demo_config\<lparr>title := []\<rparr>) quiet = (Inl AssertionError, quiet)"
    by (rule script_aborts_at_startup[OF h])
qed

section \<open>Command synthesis\<close>

lemma songs_a_str:
  "str (stringified (Path ''songs/a.mp3'')) = ''songs/a.mp3''"
  "str (stringified (Path ''songs/cover.png'')) = ''songs/cover.png''"
  "has_str (stringified (Path ''songs/a.mp3''))"
  "has_str (stringified (Path ''songs/cover.png''))"
  "\<not> has_str (Path ''songs/a.mp3'')"
  "\<not> has_str (Path ''songs/cover.png'')"
  by (simp_all add: path_eval)





text \<open>
  C10. When the prompt flag is set and the line read is empty, the line is consumed and
  the command, which exists exactly when the file and the cover image carry \<open>_str\<close>, has
  no title argument: its metadata section holds only the pairs of the non-empty artist,
  genre, track and album, whatever the configured title is.
\<close>

theorem getFfmpegCommand_empty_prompted_title:
  assumes "askTitle config" and "stdin w = [] # rest"
  shows "getFfmpegCommand file config imageFile outputFilename w =
           (if has_str file \<and> (case imageFile of None \<Rightarrow> True | Some cover \<Rightarrow> has_str cover) then
              Inr ([''ffmpeg'', ''-i'', str file]
                   @ (case imageFile of
                        None \<Rightarrow> []
                      | Some cover \<Rightarrow> [''-i'', str cover, ''-map'', ''0:0'', ''-map'', ''1:0''])
                   @ (if artist config = [] then [] else [''-metadata'', ''artist='' @ artist config])
                   @ (if genre config = [] then [] else [''-metadata'', ''genre='' @ genre config])
                   @ (if track config = [] then [] else [''-metadata'', ''track='' @ track config])
                   @ (if album config = [] then [] else [''-metadata'', ''album='' @ album config])
                   @ [''-id3v2_version'', ''3'', ''-c'', ''copy'', outputFilename])
            else Inl AttributeError,
            w\<lparr>stdin := rest\<rparr>)"
proof -
  from assms have "askTitle config \<longrightarrow> stdin w \<noteq> []" by simp
  from getFfmpegCommand_resolved[OF this] assms show ?thesis
    by (simp add: ffmpeg_command_closed)
qed

text \<open>The configured title is \<open>Demo\<close>, the prompt is answered with an empty line.\<close>

theorem getFfmpegCommand_empty_prompted_title_witness:
  "askTitle (demo_config\<lparr>askTitle := True, genre := ''Rock''\<rparr>)
   \<and> stdin (quiet\<lparr>stdin := [[], ''Next'']\<rparr>) = [] # [''Next'']
   \<and> title (demo_config\<lparr>askTitle := True, genre := ''Rock''\<rparr>) = ''Demo''
   \<and> has_str (stringified (Path ''songs/a.mp3''))
   \<and> getFfmpegCommand (stringified (Path ''songs/a.mp3''))
         (demo_config\<lparr>askTitle := True, genre := ''Rock''\<rparr>)
         None ''copy_a.mp3'' (quiet\<lparr>stdin := [[], ''Next'']\<rparr>) =
       (Inr [''ffmpeg'', ''-i'', ''songs/a.mp3'', ''-metadata'', ''genre=Rock'',
             ''-id3v2_version'', ''3'', ''-c'', ''copy'', ''copy_a.mp3''],
        quiet\<lparr>stdin := [''Next'']\<rparr>)"
proof (intro conjI)
  show h1: "askTitle (demo_config\<lparr>askTitle := True, genre := ''Rock''\<rparr>)"
    by simp
  show h2: "stdin (quiet\<lparr>stdin := [[], ''Next'']\<rparr>) = [] # [''Next'']"
    by simp
  show "title (demo_config\<lparr>askTitle := True, genre := ''Rock''\<rparr>) = ''Demo''"
    by (simp add: demo_config_def)
  show c: "has_str (stringified (Path ''songs/a.mp3''))"
    by (rule songs_a_str)
  show "getFfmpegCommand (stringified (Path ''songs/a.mp3''))
         (demo_config\<lparr>askTitle := True, genre := ''Rock''\<rparr>)
         None ''copy_a.mp3'' (quiet\<lparr>stdin := [[], ''Next'']\<rparr>) =
       (Inr [''ffmpeg'', ''-i'', ''songs/a.mp3'', ''-metadata'', ''genre=Rock'',
             ''-id3v2_version'', ''3'', ''-c'', ''copy'', ''copy_a.mp3''],
        quiet\<lparr>stdin := [''Next'']\<rparr>)"
    unfolding getFfmpegCommand_empty_prompted_title[OF h1 h2] songs_a_str(1)
    by (simp add: c demo_config_def)
qed

section \<open>File discovery\<close>

lemma songs_dir_mp3:
  "songs_dir (Path ''songs/'') ''*.mp3'' = Inr [Path ''songs/a.mp3'', Path ''songs/b.mp3'']"
  by (simp add: songs_dir_def path_eval)

lemma songs_slash_a: "joinpath (Path ''songs/'') ''a.mp3'' = Path ''songs/a.mp3''"
  by (simp add: path_eval)

text \<open>
  C4. For a file name with a wildcard whose glob expansion is \<open>found\<close>: an empty
  expansion fails the assertion, right after the glob query; a non-empty expansion is
  the file list that discovery returns, with no image when no image pattern is given
  and with the first match of the image pattern when it has one. Discovery never
  returns any other file list.
\<close>

theorem getFilePaths_wildcard:
  assumes "CHR ''*'' \<in> set fname" and "fs (Path d) fname = Inr found"
  shows "(found = [] \<longrightarrow>
            getFilePaths fs d fname pattern w =
              (Inl AssertionError, w\<lparr>events := events w @ [Globbed (Path d) fname]\<rparr>))
       \<and> (found \<noteq> [] \<longrightarrow> pattern = [] \<longrightarrow>
            getFilePaths fs d fname pattern w =
              (Inr (found, None), w\<lparr>events := events w @ [Globbed (Path d) fname]\<rparr>))
       \<and> (found \<noteq> [] \<longrightarrow> pattern \<noteq> [] \<longrightarrow>
            (\<forall>cover others. fs (Path d) pattern = Inr (cover # others) \<longrightarrow>
               fst (getFilePaths fs d fname pattern w) = Inr (found, Some cover)))
       \<and> (\<forall>files imageFile. fst (getFilePaths fs d fname pattern w) = Inr (files, imageFile)
            \<longrightarrow> files = found)"
  using assms
  by (auto simp: getFilePaths_def imageFile_of_def glob_def Let_def
           split: sum.splits list.splits prod.splits if_splits)

text \<open>The scenario's directory yields its two files; a directory without matches aborts.\<close>

theorem getFilePaths_wildcard_witness:
  "CHR ''*'' \<in> set ''*.mp3''
   \<and> songs_dir (Path ''songs/'') ''*.mp3'' = Inr [Path ''songs/a.mp3'', Path ''songs/b.mp3'']
   \<and> getFilePaths songs_dir ''songs/'' ''*.mp3'' [] quiet =
       (Inr ([Path ''songs/a.mp3'', Path ''songs/b.mp3''], None),
        quiet\<lparr>events := [Globbed (Path ''songs/'') ''*.mp3'']\<rparr>)
   \<and> no_matches (Path ''songs/'') ''*.mp3'' = Inr []
   \<and> getFilePaths no_matches ''songs/'' ''*.mp3'' [] quiet =
       (Inl AssertionError, quiet\<lparr>events := [Globbed (Path ''songs/'') ''*.mp3'']\<rparr>)"
proof (intro conjI)
  show h1: "CHR ''*'' \<in> set ''*.mp3''"
    by simp
  show h2: "songs_dir (Path ''songs/'') ''*.mp3'' = Inr [Path ''songs/a.mp3'', Path ''songs/b.mp3'']"
    by (rule songs_dir_mp3)
  show h3: "no_matches (Path ''songs/'') ''*.mp3'' = Inr []"
    by (simp add: no_matches_def)
  have q: "events quiet = []"
    by (simp add: quiet_def)
  from getFilePaths_wildcard[where fs = songs_dir and d = "''songs/''" and pattern = "[]" and w = quiet, OF h1 h2, THEN conjunct2, THEN conjunct1]
  show "getFilePaths songs_dir ''songs/'' ''*.mp3'' [] quiet =
       (Inr ([Path ''songs/a.mp3'', Path ''songs/b.mp3''], None),
        quiet\<lparr>events := [Globbed (Path ''songs/'') ''*.mp3'']\<rparr>)"
    by (simp add: q)
  from getFilePaths_wildcard[where fs = no_matches and d = "''songs/''" and pattern = "[]" and w = quiet, OF h1 h3, THEN conjunct1]
  show "getFilePaths no_matches ''songs/'' ''*.mp3'' [] quiet =
       (Inl AssertionError, quiet\<lparr>events := [Globbed (Path ''songs/'') ''*.mp3'']\<rparr>)"
    by (simp add: q)
qed

text \<open>
  C5, as stated, fails for a file name that starts with a separator: joining it to the
  directory discards the directory. For directory \<open>songs\<close> and file name \<open>/abs/x.mp3\<close>
  discovery returns the path \<open>/abs/x.mp3\<close>, in which \<open>songs\<close> does not occur.
\<close>

theorem getFilePaths_rooted_counterexample:
  "CHR ''*'' \<notin> set ''/abs/x.mp3''
   \<and> getFilePaths no_matches ''songs'' ''/abs/x.mp3'' [] quiet = (Inr ([Path ''/abs/x.mp3''], None), quiet)
   \<and> str (Path ''/abs/x.mp3'') = ''/abs/x.mp3''
   \<and> str (Path ''/abs/x.mp3'') \<noteq> ''songs'' @ ''/'' @ ''/abs/x.mp3''
   \<and> str (Path ''/abs/x.mp3'') \<noteq> ''songs/abs/x.mp3''
   \<and> ''songs'' \<notin> set (parts (Path ''/abs/x.mp3''))"
  by (simp add: getFilePaths_def imageFile_of_def path_eval)

text \<open>
  C5, amended. For a file name without a wildcard the file list is the single path
  \<open>Path(dir) / filename\<close>: discovery returns it, untouched world and no image, when no
  image pattern is given; it returns it with the first match when the image pattern has
  one; and it never returns any other file list. That path is the file name alone when
  the file name starts with a separator; otherwise it has the directory's root and the
  directory's components followed by the file name's. When directory and file name are
  written with plain components (the directory with or without a trailing separator),
  its string is \<open>directory/filename\<close>. It is a new object, without \<open>_str\<close>.
\<close>

theorem getFilePaths_literal:
  assumes "CHR ''*'' \<notin> set fname"
  shows "(pattern = [] \<longrightarrow>
            getFilePaths fs d fname pattern w = (Inr ([joinpath (Path d) fname], None), w))
       \<and> (pattern \<noteq> [] \<longrightarrow>
            (\<forall>cover others. fs (Path d) pattern = Inr (cover # others) \<longrightarrow>
               fst (getFilePaths fs d fname pattern w) = Inr ([joinpath (Path d) fname], Some cover)))
       \<and> (\<forall>files imageFile. fst (getFilePaths fs d fname pattern w) = Inr (files, imageFile)
            \<longrightarrow> files = [joinpath (Path d) fname])
       \<and> (fname \<noteq> [] \<and> hd fname = CHR ''/'' \<longrightarrow> joinpath (Path d) fname = Path fname)
       \<and> (\<not> (fname \<noteq> [] \<and> hd fname = CHR ''/'') \<longrightarrow>
            root (joinpath (Path d) fname) = root (Path d)
            \<and> parts (joinpath (Path d) fname) = parts (Path d) @ parts (Path fname))
       \<and> (\<forall>ds ns. plain ds \<and> plain ns \<and> (d = join ''/'' ds \<or> d = join ''/'' ds @ ''/'')
                    \<and> fname = join ''/'' ns \<longrightarrow>
            str (joinpath (Path d) fname) = join ''/'' ds @ ''/'' @ fname)
       \<and> \<not> has_str (joinpath (Path d) fname)"
proof (intro conjI)
  show "pattern = [] \<longrightarrow>
          getFilePaths fs d fname pattern w = (Inr ([joinpath (Path d) fname], None), w)"
    using assms by (simp add: getFilePaths_def imageFile_of_def Let_def)
  show "pattern \<noteq> [] \<longrightarrow>
          (\<forall>cover others. fs (Path d) pattern = Inr (cover # others) \<longrightarrow>
             fst (getFilePaths fs d fname pattern w) = Inr ([joinpath (Path d) fname], Some cover))"
    using assms by (simp add: getFilePaths_def imageFile_of_def glob_def Let_def)
  show "\<forall>files imageFile. fst (getFilePaths fs d fname pattern w) = Inr (files, imageFile)
          \<longrightarrow> files = [joinpath (Path d) fname]"
    using assms
    by (auto simp: getFilePaths_def imageFile_of_def glob_def Let_def
             split: sum.splits list.splits prod.splits if_splits)
  show "fname \<noteq> [] \<and> hd fname = CHR ''/'' \<longrightarrow> joinpath (Path d) fname = Path fname"
    by (simp add: joinpath_rooted)
  show "\<not> (fname \<noteq> [] \<and> hd fname = CHR ''/'') \<longrightarrow>
          root (joinpath (Path d) fname) = root (Path d)
          \<and> parts (joinpath (Path d) fname) = parts (Path d) @ parts (Path fname)"
    by (auto simp: joinpath_relative)
  show "\<forall>ds ns. plain ds \<and> plain ns \<and> (d = join ''/'' ds \<or> d = join ''/'' ds @ ''/'')
                  \<and> fname = join ''/'' ns \<longrightarrow>
          str (joinpath (Path d) fname) = join ''/'' ds @ ''/'' @ fname"
    using str_joinpath_plain by blast
  show "\<not> has_str (joinpath (Path d) fname)"
    by (rule has_str_joinpath)
qed

text \<open>
  A literal name in the scenario's directory: the returned path is \<open>songs/a.mp3\<close>, with
  the components \<open>songs\<close> and \<open>a.mp3\<close>, with and without the cover pattern.
\<close>

theorem getFilePaths_literal_witness:
  "CHR ''*'' \<notin> set ''a.mp3''
   \<and> getFilePaths songs_dir ''songs/'' ''a.mp3'' [] quiet =
       (Inr ([joinpath (Path ''songs/'') ''a.mp3''], None), quiet)
   \<and> plain [''songs''] \<and> plain [''a.mp3'']
   \<and> ''songs/'' = join ''/'' [''songs''] @ ''/'' \<and> ''a.mp3'' = join ''/'' [''a.mp3'']
   \<and> str (joinpath (Path ''songs/'') ''a.mp3'') = ''songs/a.mp3''
   \<and> hd ''a.mp3'' \<noteq> CHR ''/''
   \<and> root (joinpath (Path ''songs/'') ''a.mp3'') = []
   \<and> parts (joinpath (Path ''songs/'') ''a.mp3'') = [''songs'', ''a.mp3'']
   \<and> songs_dir (Path ''songs/'') ''cover.*'' = Inr [Path ''songs/cover.png'']
   \<and> fst (getFilePaths songs_dir ''songs/'' ''a.mp3'' ''cover.*'' quiet) =
       Inr ([joinpath (Path ''songs/'') ''a.mp3''], Some (Path ''songs/cover.png''))"
proof -
  have h: "CHR ''*'' \<notin> set ''a.mp3''"
    by simp
  have c: "songs_dir (Path ''songs/'') ''cover.*'' = Inr [Path ''songs/cover.png'']"
    by (simp add: songs_dir_def path_eval)
  have pl: "plain [''songs'']" "plain [''a.mp3'']"
    by (simp_all add: plain_def)
  have j: "''songs/'' = join ''/'' [''songs''] @ ''/''" "''a.mp3'' = join ''/'' [''a.mp3'']"
    by simp_all
  have nr: "hd ''a.mp3'' \<noteq> CHR ''/''"
    by simp
  note t = getFilePaths_literal[where fs = songs_dir and d = "''songs/''" and w = quiet, OF h]
  from t[where pattern = "[]", THEN conjunct1]
  have g1: "getFilePaths songs_dir ''songs/'' ''a.mp3'' [] quiet =
       (Inr ([joinpath (Path ''songs/'') ''a.mp3''], None), quiet)"
    by simp
  from t[where pattern = "''cover.*''", THEN conjunct2, THEN conjunct1] c
  have g2: "fst (getFilePaths songs_dir ''songs/'' ''a.mp3'' ''cover.*'' quiet) =
       Inr ([joinpath (Path ''songs/'') ''a.mp3''], Some (Path ''songs/cover.png''))"
    by simp
  from t[where pattern = "[]", THEN conjunct2, THEN conjunct2, THEN conjunct2, THEN conjunct2,
         THEN conjunct1] nr
  have rp: "root (joinpath (Path ''songs/'') ''a.mp3'') = root (Path ''songs/'')
      \<and> parts (joinpath (Path ''songs/'') ''a.mp3'') = parts (Path ''songs/'') @ parts (Path ''a.mp3'')"
    by simp
  then have r: "root (joinpath (Path ''songs/'') ''a.mp3'') = []"
    and p: "parts (joinpath (Path ''songs/'') ''a.mp3'') = [''songs'', ''a.mp3'']"
    by (simp_all add: Path_def splitroot_def)
  note a = t[where pattern = "[]", THEN conjunct2, THEN conjunct2, THEN conjunct2, THEN conjunct2,
         THEN conjunct2, THEN conjunct1, rule_format]
  from a[of "[''songs'']" "[''a.mp3'']"] pl
  have s: "str (joinpath (Path ''songs/'') ''a.mp3'') = ''songs/a.mp3''"
    by simp
  from h g1 pl j s nr r p c g2 show ?thesis
    by (intro conjI)
qed

text \<open>
  C9, as stated, fails twice. A literal file name does not keep discovery from aborting:
  with an image pattern that matches nothing, taking the first match raises
  \<open>IndexError\<close>. And passing discovery does not mean that command synthesis is reached:
  in normalize mode with directory \<open>.\<close> the joined path holds no separator, and deriving
  the output name raises \<open>ValueError\<close> before \<open>getFfmpegCommand\<close> is called.
\<close>

theorem getFilePaths_literal_abort_counterexample:
  "CHR ''*'' \<notin> set ''a.mp3''
   \<and> getFilePaths no_matches ''songs/'' ''a.mp3'' ''cover.png'' quiet =
       (Inl IndexError, quiet\<lparr>events := [Globbed (Path ''songs/'') ''cover.png'']\<rparr>)
   \<and> CHR ''*'' \<notin> set (filename (literal_tidy_config\<lparr>dir := ''.''\<rparr>))
   \<and> getFilePaths no_matches ''.'' ''missing.mp3'' [] quiet =
       (Inr ([joinpath (Path ''.'') ''missing.mp3''], None), quiet)
   \<and> main no_matches (literal_tidy_config\<lparr>dir := ''.''\<rparr>) quiet = (Inl ValueError, quiet)"
proof -
  have a: "CHR ''*'' \<notin> set ''a.mp3''"
    by simp
  have b: "getFilePaths no_matches ''songs/'' ''a.mp3'' ''cover.png'' quiet =
       (Inl IndexError, quiet\<lparr>events := [Globbed (Path ''songs/'') ''cover.png'']\<rparr>)"
    by (simp add: getFilePaths_def imageFile_of_def glob_def no_matches_def quiet_def)
  have f: "filename (literal_tidy_config\<lparr>dir := ''.''\<rparr>) = ''missing.mp3''"
    "dir (literal_tidy_config\<lparr>dir := ''.''\<rparr>) = ''.''"
    "img (literal_tidy_config\<lparr>dir := ''.''\<rparr>) = []"
    "replaceWhitespace (literal_tidy_config\<lparr>dir := ''.''\<rparr>)"
    by (simp_all add: literal_tidy_config_def demo_config_def)
  have c: "CHR ''*'' \<notin> set (filename (literal_tidy_config\<lparr>dir := ''.''\<rparr>))"
    unfolding f by simp
  have d: "getFilePaths no_matches ''.'' ''missing.mp3'' [] quiet =
       (Inr ([joinpath (Path ''.'') ''missing.mp3''], None), quiet)"
    by (simp add: getFilePaths_def imageFile_of_def)
  have s: "str (joinpath (Path ''.'') ''missing.mp3'') = ''missing.mp3''"
    by (simp add: path_eval)
  have o: "getOutputFilename (literal_tidy_config\<lparr>dir := ''.''\<rparr>)
             (joinpath (Path ''.'') ''missing.mp3'') =
           (Inl ValueError, stringified (joinpath (Path ''.'') ''missing.mp3''))"
    by (simp add: getOutputFilename_def as_posix_def f s)
  have e: "main no_matches (literal_tidy_config\<lparr>dir := ''.''\<rparr>) quiet = (Inl ValueError, quiet)"
    unfolding main_def f d
    by (simp add: o)
  from a b c d e show ?thesis
    by (intro conjI)
qed

text \<open>
  C9, amended. For a file name without a wildcard the non-emptiness assertion cannot
  fail, and when the image pattern is empty or has a match, discovery returns the single
  path \<open>Path(dir) / filename\<close> without ever asking the file system about that name. When
  moreover the output name can be derived (normalize mode is off, or the path's string
  holds a separator), command synthesis is reached: \<open>getFfmpegCommand\<close> is called for
  this path, and what \<open>main\<close> returns is its exception, or else the result of running
  its command and, with the cleanup flag set, the cleanup.
\<close>

theorem literal_filename_reaches_synthesis:
  assumes "CHR ''*'' \<notin> set (filename config)"
      and "img config = [] \<or> (\<exists>cover others. fs (Path (dir config)) (img config) = Inr (cover # others))"
      and "\<not> replaceWhitespace config
           \<or> CHR ''/'' \<in> set (str (joinpath (Path (dir config)) (filename config)))"
  shows "\<exists>imageFile w' out file'.
           getFilePaths fs (dir config) (filename config) (img config) w =
             (Inr ([joinpath (Path (dir config)) (filename config)], imageFile), w')
         \<and> getOutputFilename config (joinpath (Path (dir config)) (filename config)) = (Inr out, file')
         \<and> main fs config w =
             (case getFfmpegCommand file' config imageFile out w' of
                (Inl e, w1) \<Rightarrow> (Inl e, w1)
              | (Inr command, w1) \<Rightarrow>
                  (if \<not> cleanupFiles config then (Inr (), subprocess_run command w1)
                   else cleanupFiles_fun file' out (replaceWhitespace config)
                          (subprocess_run command w1)))"
proof -
  define p where "p = joinpath (Path (dir config)) (filename config)"
  from assms(1,2) have "\<exists>imageFile w'.
      getFilePaths fs (dir config) (filename config) (img config) w = (Inr ([p], imageFile), w')"
    by (auto simp: getFilePaths_def imageFile_of_def glob_def Let_def p_def)
  then obtain imageFile w' where
    g: "getFilePaths fs (dir config) (filename config) (img config) w = (Inr ([p], imageFile), w')"
    by blast
  have "\<exists>out file'. getOutputFilename config p = (Inr out, file')"
  proof (cases "replaceWhitespace config")
    case False
    then show ?thesis by (simp add: getOutputFilename_def)
  next
    case True
    with assms(3) have "CHR ''/'' \<in> set (str p)" by (simp add: p_def)
    from rindex_mem[OF this] obtain i where "rindex (str p) CHR ''/'' = Inr i" ..
    with True show ?thesis by (simp add: getOutputFilename_def as_posix_def)
  qed
  then obtain out file' where o: "getOutputFilename config p = (Inr out, file')"
    by blast
  have "main fs config w =
      (case getFfmpegCommand file' config imageFile out w' of
         (Inl e, w1) \<Rightarrow> (Inl e, w1)
       | (Inr command, w1) \<Rightarrow>
           (if \<not> cleanupFiles config then (Inr (), subprocess_run command w1)
            else cleanupFiles_fun file' out (replaceWhitespace config)
                   (subprocess_run command w1)))"
    unfolding main_def g
    by (simp add: o Let_def split: prod.splits sum.splits)
  with g o show ?thesis unfolding p_def by blast
qed

text \<open>
  A literal name that matches no file, in normalize mode: discovery passes, the command
  is built and run.
\<close>

theorem literal_filename_reaches_synthesis_witness:
  "CHR ''*'' \<notin> set (filename literal_tidy_config)
   \<and> img literal_tidy_config = []
   \<and> no_matches (Path (dir literal_tidy_config)) (filename literal_tidy_config) = Inr []
   \<and> str (joinpath (Path (dir literal_tidy_config)) (filename literal_tidy_config)) = ''songs/missing.mp3''
   \<and> getFilePaths no_matches (dir literal_tidy_config) (filename literal_tidy_config)
         (img literal_tidy_config) quiet =
       (Inr ([Path ''songs/missing.mp3''], None), quiet)
   \<and> main no_matches literal_tidy_config quiet =
       (Inr (),
        quiet\<lparr>events := [Ran [''ffmpeg'', ''-i'', ''songs/missing.mp3'', ''-metadata'', ''title=Demo'',
                              ''-id3v2_version'', ''3'', ''-c'', ''copy'',
                              ''songs/copy_missing.mp3'']]\<rparr>)"
proof -
  have f: "filename literal_tidy_config = ''missing.mp3''" "dir literal_tidy_config = ''songs/''"
    "img literal_tidy_config = []" "replaceWhitespace literal_tidy_config"
    "\<not> cleanupFiles literal_tidy_config" "\<not> askTitle literal_tidy_config"
    "title literal_tidy_config = ''Demo''" "artist literal_tidy_config = []"
    "genre literal_tidy_config = []" "track literal_tidy_config = []" "album literal_tidy_config = []"
    by (simp_all add: literal_tidy_config_def demo_config_def)
  have h1: "CHR ''*'' \<notin> set (filename literal_tidy_config)"
    unfolding f by simp
  have h2: "img literal_tidy_config = []
      \<or> (\<exists>cover others. no_matches (Path (dir literal_tidy_config)) (img literal_tidy_config)
            = Inr (cover # others))"
    using f(3) by (rule disjI1)
  have j: "joinpath (Path (dir literal_tidy_config)) (filename literal_tidy_config) = Path ''songs/missing.mp3''"
    unfolding f by (simp add: path_eval)
  have s: "str (Path ''songs/missing.mp3'') = ''songs/missing.mp3''"
    "name (Path ''songs/missing.mp3'') = ''missing.mp3''"
    by (simp_all add: path_eval)
  have h3: "\<not> replaceWhitespace literal_tidy_config
      \<or> CHR ''/'' \<in> set (str (joinpath (Path (dir literal_tidy_config)) (filename literal_tidy_config)))"
    unfolding j s by simp
  have h4: "no_matches (Path (dir literal_tidy_config)) (filename literal_tidy_config) = Inr []"
    by (simp add: no_matches_def)
  from literal_filename_reaches_synthesis[where fs = no_matches and w = quiet, OF h1 h2 h3]
  obtain imageFile w' out file' where
    g: "getFilePaths no_matches (dir literal_tidy_config) (filename literal_tidy_config)
          (img literal_tidy_config) quiet = (Inr ([Path ''songs/missing.mp3''], imageFile), w')" and
    o: "getOutputFilename literal_tidy_config (Path ''songs/missing.mp3'') = (Inr out, file')" and
    m: "main no_matches literal_tidy_config quiet =
      (case getFfmpegCommand file' literal_tidy_config imageFile out w' of
         (Inl e, w1) \<Rightarrow> (Inl e, w1)
       | (Inr command, w1) \<Rightarrow>
           (if \<not> cleanupFiles literal_tidy_config then (Inr (), subprocess_run command w1)
            else cleanupFiles_fun file' out (replaceWhitespace literal_tidy_config)
                   (subprocess_run command w1)))"
    unfolding j by blast
  have g': "getFilePaths no_matches (dir literal_tidy_config) (filename literal_tidy_config)
          (img literal_tidy_config) quiet = (Inr ([Path ''songs/missing.mp3''], None), quiet)"
    using h1 by (simp add: getFilePaths_def imageFile_of_def f(3) j)
  with g have i: "imageFile = None" and w: "w' = quiet"
    by simp_all
  have "getOutputFilename literal_tidy_config (Path ''songs/missing.mp3'') =
      (Inr ''songs/copy_missing.mp3'', stringified (Path ''songs/missing.mp3''))"
    by (simp add: getOutputFilename_def as_posix_def f s stringified_simps trimStr_def)
  with o have out: "out = ''songs/copy_missing.mp3''"
    and file': "file' = stringified (Path ''songs/missing.mp3'')"
    by simp_all
  have inp: "askTitle literal_tidy_config \<longrightarrow> stdin quiet \<noteq> []"
    by (simp add: f)
  have cmd: "getFfmpegCommand (stringified (Path ''songs/missing.mp3'')) literal_tidy_config None
               ''songs/copy_missing.mp3'' quiet =
      (Inr [''ffmpeg'', ''-i'', ''songs/missing.mp3'', ''-metadata'', ''title=Demo'',
            ''-id3v2_version'', ''3'', ''-c'', ''copy'', ''songs/copy_missing.mp3''], quiet)"
    unfolding getFfmpegCommand_resolved[OF inp] ffmpeg_command_closed
    by (simp add: f s stringified_simps)
  from m have e: "main no_matches literal_tidy_config quiet =
       (Inr (),
        quiet\<lparr>events := [Ran [''ffmpeg'', ''-i'', ''songs/missing.mp3'', ''-metadata'', ''title=Demo'',
                              ''-id3v2_version'', ''3'', ''-c'', ''copy'',
                              ''songs/copy_missing.mp3'']]\<rparr>)"
    unfolding i w out file' cmd
    by (simp add: f subprocess_run_def quiet_def)
  from j s(1) have s': "str (joinpath (Path (dir literal_tidy_config)) (filename literal_tidy_config))
      = ''songs/missing.mp3''"
    by (simp only:)
  from h1 f(3) h4 s' g' e show ?thesis
    by (intro conjI)
qed

text \<open>
  With normalize mode off nothing has set \<open>_str\<close> on the joined path when line 92 reads
  it: command synthesis is reached and raises \<open>AttributeError\<close>, and no process is run.
\<close>

lemma literal_filename_without_normalize:
  assumes "CHR ''*'' \<notin> set (filename config)" and "img config = []"
      and "\<not> replaceWhitespace config" and "\<not> askTitle config"
  shows "main fs config w = (Inl AttributeError, w)"
proof -
  have g: "getFilePaths fs (dir config) (filename config) (img config) w =
      (Inr ([joinpath (Path (dir config)) (filename config)], None), w)"
    using assms(1,2) by (simp add: getFilePaths_def imageFile_of_def)
  have inp: "askTitle config \<longrightarrow> stdin w \<noteq> []"
    using assms(4) by simp
  show ?thesis
    unfolding main_def g
    by (simp add: getOutputFilename_plain[OF assms(3)] getFfmpegCommand_resolved[OF inp]
          ffmpeg_command_closed has_str_joinpath assms(4))
qed

text \<open>The literal name of the scenario's variant, normalize mode off.\<close>

lemma literal_config_raises:
  "main no_matches literal_config quiet = (Inl AttributeError, quiet)"
  by (rule literal_filename_without_normalize)
     (simp_all add: literal_config_def demo_config_def)

section \<open>Output file names\<close>

lemma tidy_flags: "replaceWhitespace tidy_config" "cleanupFiles tidy_config"
  "\<not> askTitle tidy_config" "title tidy_config = ''Demo''"
  "artist tidy_config = []" "genre tidy_config = []" "track tidy_config = []" "album tidy_config = []"
  by (simp_all add: tidy_config_def demo_config_def)

text \<open>
  C2, as stated, fails twice. A space in the path is replaced by an underscore and not
  removed: for \<open>my songs/a.mp3\<close> the code gives \<open>my_songs/copy_a.mp3\<close>, where removing
  whitespace gives \<open>mysongs/copy_a.mp3\<close>. And a path without a separator has no derived
  name at all: \<open>rindex\<close> raises \<open>ValueError\<close>.
\<close>

theorem getOutputFilename_strip_counterexample:
  "fst (getOutputFilename tidy_config (Path ''my songs/a.mp3'')) = Inr ''my_songs/copy_a.mp3''
   \<and> spec_normalize (''my songs'' @ ''/copy_'' @ ''a.mp3'') = ''mysongs/copy_a.mp3''
   \<and> fst (getOutputFilename tidy_config (Path ''my songs/a.mp3''))
       \<noteq> Inr (spec_normalize (''my songs'' @ ''/copy_'' @ ''a.mp3''))
   \<and> fst (getOutputFilename tidy_config (Path ''a.mp3'')) = Inl ValueError"
  by (simp add: getOutputFilename_def tidy_flags trimStr_def spec_normalize_def path_eval)

text \<open>
  C2, amended. In normalize mode, for a path whose string (what \<open>as_posix\<close> returns)
  holds a separator, the derived name is the text before the last separator, then
  \<open>/copy_\<close>, then the path's name, with every space replaced by an underscore and every
  apostrophe removed; every other character, other whitespace included, is kept. For a
  path the library can produce, the text before the last separator and the name are the
  two sides of that separator, so the marker stands just before the bare file name.
  The call leaves the path object with its \<open>_str\<close> set.
\<close>

theorem getOutputFilename_normalize:
  assumes "replaceWhitespace config" and "CHR ''/'' \<in> set (str file)"
  shows "\<exists>i. rindex (str file) CHR ''/'' = Inr i
           \<and> i < length (str file) \<and> str file ! i = CHR ''/''
           \<and> CHR ''/'' \<notin> set (drop (Suc i) (str file))
           \<and> getOutputFilename config file =
               (Inr (map (\<lambda>c. if c = CHR '' '' then CHR ''_'' else c)
                       (filter (\<lambda>c. c \<noteq> CHR 0x27) (take i (str file) @ ''/copy_'' @ name file))),
                stringified file)
           \<and> (wellformed file \<longrightarrow> str file = take i (str file) @ ''/'' @ name file)"
proof -
  from rindex_mem[OF assms(2)] obtain i where i: "rindex (str file) CHR ''/'' = Inr i" ..
  from rindex_Inr[OF i] have "i < length (str file)" "str file ! i = CHR ''/''"
    "CHR ''/'' \<notin> set (drop (Suc i) (str file))" by auto
  moreover from i assms(1) have "getOutputFilename config file =
      (Inr (map (\<lambda>c. if c = CHR '' '' then CHR ''_'' else c)
              (filter (\<lambda>c. c \<noteq> CHR 0x27) (take i (str file) @ ''/copy_'' @ name file))),
       stringified file)"
    by (simp add: getOutputFilename_def as_posix_def stringified_simps trimStr_map_filter)
  moreover have "wellformed file \<longrightarrow> str file = take i (str file) @ ''/'' @ name file"
    using i str_split_at_rindex[of "file" i] by simp
  ultimately show ?thesis using i by blast
qed

text \<open>A directory with a space and a file name with a space and an apostrophe.\<close>

theorem getOutputFilename_normalize_witness:
  "replaceWhitespace tidy_config
   \<and> CHR ''/'' \<in> set (str (Path ''my songs/it's a.mp3''))
   \<and> str (Path ''my songs/it's a.mp3'') = ''my songs/it's a.mp3''
   \<and> getOutputFilename tidy_config (Path ''my songs/it's a.mp3'') =
       (Inr ''my_songs/copy_its_a.mp3'', stringified (Path ''my songs/it's a.mp3''))
   \<and> wellformed (Path ''my songs/it's a.mp3'')
   \<and> ''my songs/it's a.mp3'' = ''my songs'' @ ''/'' @ name (Path ''my songs/it's a.mp3'')"
proof -
  have h1: "replaceWhitespace tidy_config"
    by (rule tidy_flags)
  have p: "str (Path ''my songs/it's a.mp3'') = ''my songs/it's a.mp3''"
    by (simp add: path_eval)
  have n: "name (Path ''my songs/it's a.mp3'') = ''it's a.mp3''"
    by (simp add: path_eval)
  have h2: "CHR ''/'' \<in> set (str (Path ''my songs/it's a.mp3''))"
    unfolding p by simp
  from getOutputFilename_normalize[OF h1 h2] obtain i where
    i: "rindex (str (Path ''my songs/it's a.mp3'')) CHR ''/'' = Inr i" and
    out: "getOutputFilename tidy_config (Path ''my songs/it's a.mp3'') =
      (Inr (map (\<lambda>c. if c = CHR '' '' then CHR ''_'' else c)
              (filter (\<lambda>c. c \<noteq> CHR 0x27)
                 (take i (str (Path ''my songs/it's a.mp3'')) @ ''/copy_''
                  @ name (Path ''my songs/it's a.mp3'')))),
       stringified (Path ''my songs/it's a.mp3''))" and
    d: "wellformed (Path ''my songs/it's a.mp3'') \<longrightarrow>
      str (Path ''my songs/it's a.mp3'') =
        take i (str (Path ''my songs/it's a.mp3'')) @ ''/'' @ name (Path ''my songs/it's a.mp3'')"
    by blast
  have wf: "wellformed (Path ''my songs/it's a.mp3'')"
    by (rule wellformed_Path)
  from i have i8: "i = 8"
    unfolding p by simp
  from out have o: "getOutputFilename tidy_config (Path ''my songs/it's a.mp3'') =
       (Inr ''my_songs/copy_its_a.mp3'', stringified (Path ''my songs/it's a.mp3''))"
    unfolding p n i8 by simp
  from d wf have "str (Path ''my songs/it's a.mp3'') =
        take i (str (Path ''my songs/it's a.mp3'')) @ ''/'' @ name (Path ''my songs/it's a.mp3'')"
    by (rule mp)
  then have s: "''my songs/it's a.mp3'' = ''my songs'' @ ''/'' @ name (Path ''my songs/it's a.mp3'')"
    unfolding p i8 by simp
  from h1 h2 p o wf s show ?thesis
    by (intro conjI)
qed

text \<open>
  C3, as stated, fails: deriving twice inserts the marker twice. \<open>songs/a.mp3\<close> has no
  space and no apostrophe; its derived name is \<open>songs/copy_a.mp3\<close>, and the derived name
  of that is \<open>songs/copy_copy_a.mp3\<close>.
\<close>

theorem getOutputFilename_twice_counterexample:
  "fst (getOutputFilename tidy_config (Path ''songs/a.mp3'')) = Inr ''songs/copy_a.mp3''
   \<and> fst (getOutputFilename tidy_config (Path ''songs/copy_a.mp3'')) = Inr ''songs/copy_copy_a.mp3''
   \<and> fst (getOutputFilename tidy_config (Path ''songs/copy_a.mp3'')) \<noteq> Inr ''songs/copy_a.mp3''"
  by (simp add: getOutputFilename_def tidy_flags trimStr_def path_eval)

text \<open>
  C3, amended. The normalisation that the derivation applies is idempotent, and it leaves
  a string without spaces and apostrophes unchanged; so in normalize mode the derived
  name of a path without spaces and apostrophes is the path with \<open>copy_\<close> inserted after
  its last separator, and nothing else changed.
\<close>

theorem trimStr_idempotent:
  "trimStr (trimStr s) = trimStr s
   \<and> (CHR '' '' \<notin> set s \<and> CHR 0x27 \<notin> set s \<longrightarrow> trimStr s = s)
   \<and> (replaceWhitespace config \<and> CHR '' '' \<notin> set (str file) \<and> CHR 0x27 \<notin> set (str file) \<longrightarrow>
      (\<forall>i. rindex (str file) CHR ''/'' = Inr i \<longrightarrow>
         getOutputFilename config file =
           (Inr (take i (str file) @ ''/copy_'' @ name file), stringified file)))"
proof (intro conjI)
  show "trimStr (trimStr s) = trimStr s"
    using trimStr_clean[of s] by (simp add: trimStr_unchanged)
  show "CHR '' '' \<notin> set s \<and> CHR 0x27 \<notin> set s \<longrightarrow> trimStr s = s"
    by (simp add: trimStr_unchanged)
  show "replaceWhitespace config \<and> CHR '' '' \<notin> set (str file) \<and> CHR 0x27 \<notin> set (str file) \<longrightarrow>
      (\<forall>i. rindex (str file) CHR ''/'' = Inr i \<longrightarrow>
         getOutputFilename config file =
           (Inr (take i (str file) @ ''/copy_'' @ name file), stringified file))"
  proof (intro impI allI)
    fix i
    assume a: "replaceWhitespace config \<and> CHR '' '' \<notin> set (str file) \<and> CHR 0x27 \<notin> set (str file)"
      and i: "rindex (str file) CHR ''/'' = Inr i"
    from a name_subset_str[of "file"] have "CHR '' '' \<notin> set (name file)" "CHR 0x27 \<notin> set (name file)"
      by auto
    with a have "CHR '' '' \<notin> set (take i (str file) @ ''/copy_'' @ name file)"
      "CHR 0x27 \<notin> set (take i (str file) @ ''/copy_'' @ name file)"
      by (auto dest: in_set_takeD)
    from trimStr_unchanged[OF this] a i
    show "getOutputFilename config file =
        (Inr (take i (str file) @ ''/copy_'' @ name file), stringified file)"
      by (simp add: getOutputFilename_def as_posix_def stringified_simps)
  qed
qed

text \<open>The counterexample's path again: the marker is inserted and nothing else changes.\<close>

theorem trimStr_idempotent_witness:
  "CHR '' '' \<notin> set ''songs/a.mp3'' \<and> CHR 0x27 \<notin> set ''songs/a.mp3''
   \<and> trimStr ''songs/a.mp3'' = ''songs/a.mp3''
   \<and> trimStr (trimStr ''it's a.mp3'') = trimStr ''it's a.mp3''
   \<and> replaceWhitespace tidy_config
   \<and> str (Path ''songs/a.mp3'') = ''songs/a.mp3''
   \<and> rindex (str (Path ''songs/a.mp3'')) CHR ''/'' = Inr 5
   \<and> getOutputFilename tidy_config (Path ''songs/a.mp3'') =
       (Inr ''songs/copy_a.mp3'', stringified (Path ''songs/a.mp3''))"
proof -
  have c: "CHR '' '' \<notin> set ''songs/a.mp3'' \<and> CHR 0x27 \<notin> set ''songs/a.mp3''"
    by simp
  have p: "str (Path ''songs/a.mp3'') = ''songs/a.mp3''"
    by (simp add: path_eval)
  have n: "name (Path ''songs/a.mp3'') = ''a.mp3''"
    by (simp add: path_eval)
  have r: "rindex (str (Path ''songs/a.mp3'')) CHR ''/'' = Inr 5"
    unfolding p by simp
  have h: "replaceWhitespace tidy_config \<and> CHR '' '' \<notin> set (str (Path ''songs/a.mp3''))
      \<and> CHR 0x27 \<notin> set (str (Path ''songs/a.mp3''))"
    unfolding p by (simp add: tidy_flags)
  note t = trimStr_idempotent[where config = tidy_config and ?file = "Path ''songs/a.mp3''"]
  from t[where s = "''songs/a.mp3''", THEN conjunct2, THEN conjunct1] c
  have t2: "trimStr ''songs/a.mp3'' = ''songs/a.mp3''"
    by (rule mp)
  have t1: "trimStr (trimStr ''it's a.mp3'') = trimStr ''it's a.mp3''"
    by (rule t[where s = "''it's a.mp3''", THEN conjunct1])
  from t[where s = "[]", THEN conjunct2, THEN conjunct2] h
  have "\<forall>i. rindex (str (Path ''songs/a.mp3'')) CHR ''/'' = Inr i \<longrightarrow>
         getOutputFilename tidy_config (Path ''songs/a.mp3'') =
           (Inr (take i (str (Path ''songs/a.mp3'')) @ ''/copy_'' @ name (Path ''songs/a.mp3'')),
            stringified (Path ''songs/a.mp3''))"
    by (rule mp)
  with r have "getOutputFilename tidy_config (Path ''songs/a.mp3'') =
           (Inr (take 5 (str (Path ''songs/a.mp3'')) @ ''/copy_'' @ name (Path ''songs/a.mp3'')),
            stringified (Path ''songs/a.mp3''))"
    by blast
  then have o: "getOutputFilename tidy_config (Path ''songs/a.mp3'') =
       (Inr ''songs/copy_a.mp3'', stringified (Path ''songs/a.mp3''))"
    unfolding p n by simp
  from c t2 t1 h p r o show ?thesis
    by (simp only: simp_thms)
qed

section \<open>Cleanup\<close>

text \<open>
  C8. Take a run in which every file has a derived output name, standard input holds a
  line per file if the prompt flag is set, and \<open>_str\<close> can be read where the script reads
  it (each file is stringified by normalize mode or carries \<open>_str\<close> already, and so does
  the cover image if there is one). Then \<open>addMetadata\<close> completes, and the processes
  it has run are, file by file in order: the \<open>ffmpeg\<close> command of the file and, exactly
  when the cleanup flag is set, directly after it \<open>rm\<close> of the original and \<open>mv\<close> of the
  output to the original's path, which is trimmed exactly when the normalize flag is
  set. With the cleanup flag unset nothing but the \<open>ffmpeg\<close> commands is run.
\<close>

theorem addMetadata_cleanup_per_file:
  assumes "map (\<lambda>file. fst (getOutputFilename config file)) files = map Inr outs"
      and "askTitle config \<longrightarrow> length files \<le> length (stdin w)"
      and "titles = (if askTitle config then take (length files) (stdin w)
                     else replicate (length files) (title config))"
      and "list_all (\<lambda>file. replaceWhitespace config \<or> has_str file) files"
      and "case imageFile of None \<Rightarrow> True | Some cover \<Rightarrow> has_str cover"
  shows "\<exists>w'. addMetadata config files imageFile w = (Inr (), w')
          \<and> stdin w' = (if askTitle config then drop (length files) (stdin w) else stdin w)
          \<and> events w' = events w @ concat (map (\<lambda>(file, out, ttl).
                Ran ([''ffmpeg'', ''-i'', str file]
                     @ (case imageFile of
                          None \<Rightarrow> []
                        | Some cover \<Rightarrow> [''-i'', str cover, ''-map'', ''0:0'', ''-map'', ''1:0''])
                     @ concat (map (\<lambda>(key, val).
                                      if val = [] then [] else [''-metadata'', key @ ''='' @ val])
                         [(''title'', ttl), (''artist'', artist config), (''genre'', genre config),
                          (''track'', track config), (''album'', album config)])
                     @ [''-id3v2_version'', ''3'', ''-c'', ''copy'', out])
                # (if cleanupFiles config
                   then [Ran [''rm'', str file],
                         Ran [''mv'', out,
                              if replaceWhitespace config then trimStr (str file) else str file]]
                   else []))
              (zip files (zip outs titles)))"
  using assms(1-4)
proof (induction files arbitrary: outs w titles)
  case Nil
  then show ?case by simp
next
  case (Cons f fls)
  define step where "step = (\<lambda>(file, out, ttl).
                Ran ([''ffmpeg'', ''-i'', str file]
                     @ (case imageFile of
                          None \<Rightarrow> []
                        | Some cover \<Rightarrow> [''-i'', str cover, ''-map'', ''0:0'', ''-map'', ''1:0''])
                     @ concat (map (\<lambda>(key, val).
                                      if val = [] then [] else [''-metadata'', key @ ''='' @ val])
                         [(''title'', ttl), (''artist'', artist config), (''genre'', genre config),
                          (''track'', track config), (''album'', album config)])
                     @ [''-id3v2_version'', ''3'', ''-c'', ''copy'', out])
                # (if cleanupFiles config
                   then [Ran [''rm'', str file],
                         Ran [''mv'', out,
                              if replaceWhitespace config then trimStr (str file) else str file]]
                   else []))"
  from Cons.prems(1) obtain out outs' where outs: "outs = out # outs'"
    and out: "fst (getOutputFilename config f) = Inr out"
    and rest: "map (\<lambda>file. fst (getOutputFilename config file)) fls = map Inr outs'"
    by (cases outs) auto
  define f' where "f' = snd (getOutputFilename config f)"
  from out have o: "getOutputFilename config f = (Inr out, f')"
    by (simp add: f'_def prod_eq_iff)
  from Cons.prems(4) have "replaceWhitespace config \<or> has_str f" by simp
  then have f': "has_str f'" "str f' = str f"
    by (auto simp: f'_def getOutputFilename_object stringified_simps)
  from Cons.prems(2) have inp: "askTitle config \<longrightarrow> stdin w \<noteq> []" by auto
  define ttl where "ttl = (if askTitle config then hd (stdin w) else title config)"
  define titles' where "titles' = (if askTitle config then take (length fls) (tl (stdin w))
                     else replicate (length fls) (title config))"
  define w1 where "w1 = w\<lparr>stdin := (if askTitle config then tl (stdin w) else stdin w),
                          events := events w @ step (f, out, ttl)\<rparr>"
  have cmd: "ffmpeg_command f' config imageFile out
               (if askTitle config then hd (stdin w) else title config) =
      Inr ([''ffmpeg'', ''-i'', str f]
           @ (case imageFile of
                None \<Rightarrow> []
              | Some cover \<Rightarrow> [''-i'', str cover, ''-map'', ''0:0'', ''-map'', ''1:0''])
           @ concat (map (\<lambda>(key, val).
                            if val = [] then [] else [''-metadata'', key @ ''='' @ val])
               [(''title'', ttl), (''artist'', artist config), (''genre'', genre config),
                (''track'', track config), (''album'', album config)])
           @ [''-id3v2_version'', ''3'', ''-c'', ''copy'', out])"
    using f' assms(5) by (simp add: ffmpeg_command_closed ttl_def)
  have st: "addMetadata config (f # fls) imageFile w = addMetadata config fls imageFile w1"
    unfolding addMetadata_step[OF o inp cmd] w1_def step_def by (simp add: f')
  have t: "titles = ttl # titles'"
    using Cons.prems(2,3) unfolding ttl_def titles'_def by (cases "stdin w") auto
  have p2: "askTitle config \<longrightarrow> length fls \<le> length (stdin w1)"
    using Cons.prems(2) by (auto simp: w1_def)
  have p3: "titles' = (if askTitle config then take (length fls) (stdin w1)
                     else replicate (length fls) (title config))"
    by (simp add: titles'_def w1_def)
  from Cons.prems(4) have p4: "list_all (\<lambda>file. replaceWhitespace config \<or> has_str file) fls"
    by simp
  from Cons.IH[OF rest p2 p3 p4] obtain w' where
    r: "addMetadata config fls imageFile w1 = (Inr (), w')" and
    i: "stdin w' = (if askTitle config then drop (length fls) (stdin w1) else stdin w1)" and
    e: "events w' = events w1 @ concat (map step (zip fls (zip outs' titles')))"
    unfolding step_def by blast
  have "events w1 = events w @ step (f, out, ttl)"
    by (simp add: w1_def)
  with e have e': "events w' = events w @ concat (map step (zip (f # fls) (zip outs titles)))"
    by (simp add: outs t)
  from i have i': "stdin w' = (if askTitle config then drop (length (f # fls)) (stdin w) else stdin w)"
    by (simp add: w1_def drop_Suc)
  from st r i' e' show ?case
    unfolding step_def by (simp del: addMetadata.simps)
qed

text \<open>
  Normalize mode with cleanup, two files as a glob returns them without \<open>_str\<close>: the
  first file is transcoded, removed and renamed before the second file is touched.
\<close>

theorem addMetadata_cleanup_per_file_witness:
  "map (\<lambda>file. fst (getOutputFilename tidy_config file)) [Path ''my songs/a b.mp3'', Path ''my songs/c.mp3'']
     = map Inr [''my_songs/copy_a_b.mp3'', ''my_songs/copy_c.mp3'']
   \<and> \<not> askTitle tidy_config
   \<and> cleanupFiles tidy_config \<and> replaceWhitespace tidy_config
   \<and> addMetadata tidy_config [Path ''my songs/a b.mp3'', Path ''my songs/c.mp3''] None quiet =
       (Inr (),
        quiet\<lparr>events :=
          [Ran [''ffmpeg'', ''-i'', ''my songs/a b.mp3'', ''-metadata'', ''title=Demo'',
                ''-id3v2_version'', ''3'', ''-c'', ''copy'', ''my_songs/copy_a_b.mp3''],
           Ran [''rm'', ''my songs/a b.mp3''],
           Ran [''mv'', ''my_songs/copy_a_b.mp3'', ''my_songs/a_b.mp3''],
           Ran [''ffmpeg'', ''-i'', ''my songs/c.mp3'', ''-metadata'', ''title=Demo'',
                ''-id3v2_version'', ''3'', ''-c'', ''copy'', ''my_songs/copy_c.mp3''],
           Ran [''rm'', ''my songs/c.mp3''],
           Ran [''mv'', ''my_songs/copy_c.mp3'', ''my_songs/c.mp3'']]\<rparr>)"
proof -
  have s: "str (Path ''my songs/a b.mp3'') = ''my songs/a b.mp3''"
    "str (Path ''my songs/c.mp3'') = ''my songs/c.mp3''"
    by (simp_all add: path_eval)
  have h1: "map (\<lambda>file. fst (getOutputFilename tidy_config file))
              [Path ''my songs/a b.mp3'', Path ''my songs/c.mp3'']
            = map Inr [''my_songs/copy_a_b.mp3'', ''my_songs/copy_c.mp3'']"
    by (simp add: getOutputFilename_def tidy_flags trimStr_def path_eval)
  have h2: "askTitle tidy_config \<longrightarrow>
      length [Path ''my songs/a b.mp3'', Path ''my songs/c.mp3''] \<le> length (stdin quiet)"
    by (simp add: tidy_flags)
  have h3: "[''Demo'', ''Demo''] =
      (if askTitle tidy_config
       then take (length [Path ''my songs/a b.mp3'', Path ''my songs/c.mp3'']) (stdin quiet)
       else replicate (length [Path ''my songs/a b.mp3'', Path ''my songs/c.mp3'']) (title tidy_config))"
    by (simp add: tidy_flags numeral_2_eq_2)
  have h4: "list_all (\<lambda>file. replaceWhitespace tidy_config \<or> has_str file)
              [Path ''my songs/a b.mp3'', Path ''my songs/c.mp3'']"
    by (simp add: tidy_flags)
  have h5: "case None :: path option of None \<Rightarrow> True | Some cover \<Rightarrow> has_str cover"
    by simp
  have tr: "trimStr ''my songs/a b.mp3'' = ''my_songs/a_b.mp3''"
    "trimStr ''my songs/c.mp3'' = ''my_songs/c.mp3''"
    by (simp_all add: trimStr_def)
  from addMetadata_cleanup_per_file[OF h1 h2 h3 h4 h5]
  obtain w' where
    r: "addMetadata tidy_config [Path ''my songs/a b.mp3'', Path ''my songs/c.mp3''] None quiet = (Inr (), w')"
    and i: "stdin w' =
      (if askTitle tidy_config
       then drop (length [Path ''my songs/a b.mp3'', Path ''my songs/c.mp3'']) (stdin quiet)
       else stdin quiet)"
    and e: "events w' = events quiet @ concat (map (\<lambda>(file, out, ttl).
                Ran ([''ffmpeg'', ''-i'', str file]
                     @ (case None :: path option of
                          None \<Rightarrow> []
                        | Some cover \<Rightarrow> [''-i'', str cover, ''-map'', ''0:0'', ''-map'', ''1:0''])
                     @ concat (map (\<lambda>(key, val).
                                      if val = [] then [] else [''-metadata'', key @ ''='' @ val])
                         [(''title'', ttl), (''artist'', artist tidy_config),
                          (''genre'', genre tidy_config), (''track'', track tidy_config),
                          (''album'', album tidy_config)])
                     @ [''-id3v2_version'', ''3'', ''-c'', ''copy'', out])
                # (if cleanupFiles tidy_config
                   then [Ran [''rm'', str file],
                         Ran [''mv'', out,
                              if replaceWhitespace tidy_config then trimStr (str file) else str file]]
                   else []))
              (zip [Path ''my songs/a b.mp3'', Path ''my songs/c.mp3'']
                 (zip [''my_songs/copy_a_b.mp3'', ''my_songs/copy_c.mp3''] [''Demo'', ''Demo''])))"
    by blast
  from i have i': "stdin w' = []"
    by (simp add: tidy_flags quiet_def)
  from e have e': "events w' =
          [Ran [''ffmpeg'', ''-i'', ''my songs/a b.mp3'', ''-metadata'', ''title=Demo'',
                ''-id3v2_version'', ''3'', ''-c'', ''copy'', ''my_songs/copy_a_b.mp3''],
           Ran [''rm'', ''my songs/a b.mp3''],
           Ran [''mv'', ''my_songs/copy_a_b.mp3'', ''my_songs/a_b.mp3''],
           Ran [''ffmpeg'', ''-i'', ''my songs/c.mp3'', ''-metadata'', ''title=Demo'',
                ''-id3v2_version'', ''3'', ''-c'', ''copy'', ''my_songs/copy_c.mp3''],
           Ran [''rm'', ''my songs/c.mp3''],
           Ran [''mv'', ''my_songs/copy_c.mp3'', ''my_songs/c.mp3'']]"
    by (simp add: tidy_flags s tr quiet_def)
  have "w' = quiet\<lparr>events :=
          [Ran [''ffmpeg'', ''-i'', ''my songs/a b.mp3'', ''-metadata'', ''title=Demo'',
                ''-id3v2_version'', ''3'', ''-c'', ''copy'', ''my_songs/copy_a_b.mp3''],
           Ran [''rm'', ''my songs/a b.mp3''],
           Ran [''mv'', ''my_songs/copy_a_b.mp3'', ''my_songs/a_b.mp3''],
           Ran [''ffmpeg'', ''-i'', ''my songs/c.mp3'', ''-metadata'', ''title=Demo'',
                ''-id3v2_version'', ''3'', ''-c'', ''copy'', ''my_songs/copy_c.mp3''],
           Ran [''rm'', ''my songs/c.mp3''],
           Ran [''mv'', ''my_songs/copy_c.mp3'', ''my_songs/c.mp3'']]\<rparr>"
    by (rule world.equality) (simp_all add: i' e' quiet_def)
  with r have a: "addMetadata tidy_config [Path ''my songs/a b.mp3'', Path ''my songs/c.mp3''] None quiet =
       (Inr (),
        quiet\<lparr>events :=
          [Ran [''ffmpeg'', ''-i'', ''my songs/a b.mp3'', ''-metadata'', ''title=Demo'',
                ''-id3v2_version'', ''3'', ''-c'', ''copy'', ''my_songs/copy_a_b.mp3''],
           Ran [''rm'', ''my songs/a b.mp3''],
           Ran [''mv'', ''my_songs/copy_a_b.mp3'', ''my_songs/a_b.mp3''],
           Ran [''ffmpeg'', ''-i'', ''my songs/c.mp3'', ''-metadata'', ''title=Demo'',
                ''-id3v2_version'', ''3'', ''-c'', ''copy'', ''my_songs/copy_c.mp3''],
           Ran [''rm'', ''my songs/c.mp3''],
           Ran [''mv'', ''my_songs/copy_c.mp3'', ''my_songs/c.mp3'']]\<rparr>)"
    by (simp only:)
  from h1 tidy_flags(3) tidy_flags(2) tidy_flags(1) a show ?thesis
    by (intro conjI)
qed

text \<open>
  Whatever the outcome, also when a later file aborts the run: the processes run so far
  are those of an initial segment of the files, each file's cleanup directly behind its
  transcode, and the run completes exactly when that segment is the whole list.
\<close>

lemma addMetadata_events_prefix:
  "\<exists>done. length done \<le> length files
        \<and> map fst done = take (length done) files
        \<and> list_all (\<lambda>(file, out, command).
             fst (getOutputFilename config file) = Inr out
             \<and> (\<exists>ttl. ffmpeg_command (snd (getOutputFilename config file)) config imageFile out ttl
                        = Inr command)) done
        \<and> events (snd (addMetadata config files imageFile w)) =
            events w @ concat (map (\<lambda>(file, out, command).
                Ran command
                # (if cleanupFiles config
                   then [Ran [''rm'', str file],
                         Ran [''mv'', out,
                              if replaceWhitespace config then trimStr (str file) else str file]]
                   else []))
              done)
        \<and> (fst (addMetadata config files imageFile w) = Inr () \<longleftrightarrow> length done = length files)"
proof (induction files arbitrary: w)
  case Nil
  show ?case by (rule exI[of _ "[]"]) simp
next
  case (Cons f fls)
  obtain r f' where o: "getOutputFilename config f = (r, f')"
    by (cases "getOutputFilename config f")
  show ?case
  proof (cases r)
    case (Inl e)
    with o show ?thesis by (intro exI[of _ "[]"]) simp
  next
    case (Inr out)
    note o = o[unfolded Inr]
    show ?thesis
    proof (cases "askTitle config \<and> stdin w = []")
      case True
      then have "getFfmpegCommand f' config imageFile out w = (Inl EOFError, w)"
        by (simp add: getFfmpegCommand_EOF)
      with o show ?thesis by (intro exI[of _ "[]"]) simp
    next
      case False
      then have inp: "askTitle config \<longrightarrow> stdin w \<noteq> []" by simp
      define ttl where "ttl = (if askTitle config then hd (stdin w) else title config)"
      show ?thesis
      proof (cases "ffmpeg_command f' config imageFile out ttl")
        case (Inl e)
        then have "getFfmpegCommand f' config imageFile out w =
            (Inl e, if askTitle config then w\<lparr>stdin := tl (stdin w)\<rparr> else w)"
          by (simp add: getFfmpegCommand_resolved[OF inp] ttl_def)
        with o show ?thesis by (intro exI[of _ "[]"]) simp
      next
        case (Inr command)
        then have cmd: "ffmpeg_command f' config imageFile out
            (if askTitle config then hd (stdin w) else title config) = Inr command"
          by (simp add: ttl_def)
        from ffmpeg_command_Inr_has_str[OF cmd] o have sf: "str f' = str f"
          using getOutputFilename_object[of config f] by (auto simp: stringified_simps split: if_splits)
        define w1 where "w1 = w\<lparr>stdin := (if askTitle config then tl (stdin w) else stdin w),
                events := events w
                  @ Ran command
                  # (if cleanupFiles config
                     then [Ran [''rm'', str f],
                           Ran [''mv'', out,
                                if replaceWhitespace config then trimStr (str f) else str f]]
                     else [])\<rparr>"
        have step: "addMetadata config (f # fls) imageFile w = addMetadata config fls imageFile w1"
          unfolding addMetadata_step[OF o inp cmd] w1_def by (simp add: sf)
        from Cons.IH[of w1] obtain rest where
          l: "length rest \<le> length fls" and
          m: "map fst rest = take (length rest) fls" and
          a: "list_all (\<lambda>(file, out, command).
               fst (getOutputFilename config file) = Inr out
               \<and> (\<exists>ttl. ffmpeg_command (snd (getOutputFilename config file)) config imageFile out ttl
                          = Inr command)) rest" and
          e: "events (snd (addMetadata config fls imageFile w1)) =
              events w1 @ concat (map (\<lambda>(file, out, command).
                  Ran command
                  # (if cleanupFiles config
                     then [Ran [''rm'', str file],
                           Ran [''mv'', out,
                                if replaceWhitespace config then trimStr (str file) else str file]]
                     else []))
                rest)" and
          c: "fst (addMetadata config fls imageFile w1) = Inr () \<longleftrightarrow> length rest = length fls"
          by blast
        have e1: "events w1 = events w @ Ran command
                    # (if cleanupFiles config
                       then [Ran [''rm'', str f],
                             Ran [''mv'', out,
                                  if replaceWhitespace config then trimStr (str f) else str f]]
                       else [])"
          by (simp add: w1_def)
        have here: "fst (getOutputFilename config f) = Inr out
            \<and> (\<exists>ttl. ffmpeg_command (snd (getOutputFilename config f)) config imageFile out ttl
                       = Inr command)"
          using o cmd by auto
        show ?thesis
          unfolding step
          using l m a c here by (intro exI[of _ "(f, out, command) # rest"]) (simp add: e e1)
      qed
    qed
  qed
qed

section \<open>The end-to-end scenario\<close>

text \<open>
  Directory \<open>songs/\<close>, pattern \<open>*.mp3\<close> matching \<open>a.mp3\<close> and \<open>b.mp3\<close>, title \<open>Demo\<close>, no
  image, no cleanup, normalize mode off. When the glob results carry \<open>_str\<close>: one glob
  query, then one \<open>ffmpeg\<close> run per file, writing \<open>copy_a.mp3\<close> and \<open>copy_b.mp3\<close>.
\<close>

lemma demo_flags:
  "dir demo_config = ''songs/''" "filename demo_config = ''*.mp3''" "img demo_config = []"
  "title demo_config = ''Demo''" "\<not> askTitle demo_config" "\<not> cleanupFiles demo_config"
  "\<not> replaceWhitespace demo_config" "artist demo_config = []" "genre demo_config = []"
  "track demo_config = []" "album demo_config = []"
  by (simp_all add: demo_config_def)

lemma end_to_end_scenario:
  "script songs_dir_cached demo_config quiet =
     (Inr (),
      quiet\<lparr>events :=
        [Globbed (Path ''songs/'') ''*.mp3'',
         Ran [''ffmpeg'', ''-i'', ''songs/a.mp3'', ''-metadata'', ''title=Demo'',
              ''-id3v2_version'', ''3'', ''-c'', ''copy'', ''copy_a.mp3''],
         Ran [''ffmpeg'', ''-i'', ''songs/b.mp3'', ''-metadata'', ''title=Demo'',
              ''-id3v2_version'', ''3'', ''-c'', ''copy'', ''copy_b.mp3'']]\<rparr>)"
proof -
  have g: "getFilePaths songs_dir_cached ''songs/'' ''*.mp3'' [] quiet =
      (Inr ([stringified (Path ''songs/a.mp3''), stringified (Path ''songs/b.mp3'')], None),
       quiet\<lparr>events := [Globbed (Path ''songs/'') ''*.mp3'']\<rparr>)"
    by (simp add: getFilePaths_def glob_def imageFile_of_def songs_dir_cached_def quiet_def)
       (simp add: path_eval)
  have oa: "getOutputFilename demo_config (stringified (Path ''songs/a.mp3'')) =
        (Inr ''copy_a.mp3'', stringified (Path ''songs/a.mp3''))"
    and ob: "getOutputFilename demo_config (stringified (Path ''songs/b.mp3'')) =
        (Inr ''copy_b.mp3'', stringified (Path ''songs/b.mp3''))"
    by (simp_all add: getOutputFilename_def demo_flags path_eval)
  have ca: "ffmpeg_command (stringified (Path ''songs/a.mp3'')) demo_config None ''copy_a.mp3''
              (if askTitle demo_config then hd (stdin w) else title demo_config) =
      Inr [''ffmpeg'', ''-i'', ''songs/a.mp3'', ''-metadata'', ''title=Demo'',
           ''-id3v2_version'', ''3'', ''-c'', ''copy'', ''copy_a.mp3'']"
    and cb: "ffmpeg_command (stringified (Path ''songs/b.mp3'')) demo_config None ''copy_b.mp3''
              (if askTitle demo_config then hd (stdin w) else title demo_config) =
      Inr [''ffmpeg'', ''-i'', ''songs/b.mp3'', ''-metadata'', ''title=Demo'',
           ''-id3v2_version'', ''3'', ''-c'', ''copy'', ''copy_b.mp3'']" for w
    by (simp_all add: ffmpeg_command_closed demo_flags path_eval)
  have inp: "askTitle demo_config \<longrightarrow> stdin w \<noteq> []" for w
    by (simp add: demo_flags)
  have "addMetadata demo_config [stringified (Path ''songs/a.mp3''), stringified (Path ''songs/b.mp3'')]
          None (quiet\<lparr>events := [Globbed (Path ''songs/'') ''*.mp3'']\<rparr>) =
     (Inr (),
      quiet\<lparr>events :=
        [Globbed (Path ''songs/'') ''*.mp3'',
         Ran [''ffmpeg'', ''-i'', ''songs/a.mp3'', ''-metadata'', ''title=Demo'',
              ''-id3v2_version'', ''3'', ''-c'', ''copy'', ''copy_a.mp3''],
         Ran [''ffmpeg'', ''-i'', ''songs/b.mp3'', ''-metadata'', ''title=Demo'',
              ''-id3v2_version'', ''3'', ''-c'', ''copy'', ''copy_b.mp3'']]\<rparr>)"
    unfolding addMetadata_step[OF oa inp ca] addMetadata_step[OF ob inp cb]
    by (simp add: demo_flags quiet_def)
  then show ?thesis
    by (simp add: script_def main_def demo_flags g del: addMetadata.simps)
qed

text \<open>
  The same scenario when the glob results carry no \<open>_str\<close>: the first read of
  \<open>file._str\<close> raises, after the glob query and before any process is run.
\<close>

lemma end_to_end_scenario_without_str:
  "script songs_dir demo_config quiet =
     (Inl AttributeError, quiet\<lparr>events := [Globbed (Path ''songs/'') ''*.mp3'']\<rparr>)"
proof -
  have g: "getFilePaths songs_dir ''songs/'' ''*.mp3'' [] quiet =
      (Inr ([Path ''songs/a.mp3'', Path ''songs/b.mp3''], None),
       quiet\<lparr>events := [Globbed (Path ''songs/'') ''*.mp3'']\<rparr>)"
    by (simp add: getFilePaths_def glob_def imageFile_of_def songs_dir_mp3 quiet_def)
  have inp: "askTitle demo_config \<longrightarrow> stdin w \<noteq> []" for w
    by (simp add: demo_flags)
  have "addMetadata demo_config [Path ''songs/a.mp3'', Path ''songs/b.mp3''] None
          (quiet\<lparr>events := [Globbed (Path ''songs/'') ''*.mp3'']\<rparr>) =
     (Inl AttributeError, quiet\<lparr>events := [Globbed (Path ''songs/'') ''*.mp3'']\<rparr>)"
    by (simp add: getOutputFilename_plain[OF demo_flags(7)] getFfmpegCommand_resolved[OF inp]
          ffmpeg_command_closed has_str_Path demo_flags)
  then show ?thesis
    by (simp add: script_def main_def demo_flags g del: addMetadata.simps)
qed

end
